theory Spec2Isabelle
  imports Complex_Main "HOL-Library.Sublist" "HOL-Library.Multiset"
begin

section \<open>Geometry values and the external collaborators\<close>

text \<open>
  A decoded geometry value (a GEOS geometry object). Coordinates are pairs
  \<open>(x, y) = (longitude, latitude)\<close>; Python floats are modelled by \<open>real\<close>.
  A polygon is its list of rings, the shell first.
\<close>

type_synonym coord = "real \<times> real"

datatype geos_geometry =
    Point real real
  | LineString "coord list"
  | Polygon "coord list list"

text \<open>
  The code calls into GEOS/GDAL (\<open>valid\<close>, \<open>area\<close>, \<open>transform\<close>), into the spatial
  database (\<open>dwithin\<close>, \<open>Distance\<close>, \<open>contains\<close>, \<open>intersects\<close>) and into Python's
  \<open>float\<close> and \<open>int\<close> conversions. None of these is code of the repository; they are
  taken as parameters, collected in one record. The conversions return \<open>None\<close>
  where Python raises \<open>ValueError\<close>, and \<open>transform\<close> returns \<open>None\<close> where GDAL
  raises \<open>GDALException\<close> (a coordinate the projection is not defined at, such as a
  latitude beyond the poles). Python floats are modelled by the reals they denote.
\<close>

record platform =
  geos_valid :: "geos_geometry \<Rightarrow> bool"
  geos_area :: "geos_geometry \<Rightarrow> real"
  geos_transform :: "nat \<Rightarrow> geos_geometry \<Rightarrow> geos_geometry option"
  db_dwithin :: "geos_geometry \<Rightarrow> geos_geometry \<Rightarrow> real \<Rightarrow> bool"
  db_distance :: "geos_geometry \<Rightarrow> geos_geometry \<Rightarrow> real"
  db_contains :: "geos_geometry \<Rightarrow> geos_geometry \<Rightarrow> bool"
  db_intersects :: "geos_geometry \<Rightarrow> geos_geometry \<Rightarrow> bool"
  py_float :: "string \<Rightarrow> real option"
  py_int :: "string \<Rightarrow> int option"

section \<open>models.py\<close>

text \<open>
  \<open>SpatialPointData\<close> and \<open>SpatialPolygonData\<close>. The UUID primary key is a natural
  number, timestamps are natural numbers, the JSON field \<open>properties\<close> is an association
  list. \<open>location\<close> and \<open>geometry\<close> are optional on the in-memory instance only
  (the columns are NOT NULL); \<open>area\<close> is a nullable column.
\<close>

record point_entity =
  pt_id :: nat
  pt_name :: string
  pt_description :: "string option"
  pt_location :: "geos_geometry option"
  pt_properties :: "(string \<times> string) list"
  pt_created_at :: nat
  pt_updated_at :: nat
  pt_is_active :: bool

record polygon_entity =
  pg_id :: nat
  pg_name :: string
  pg_description :: "string option"
  pg_geometry :: "geos_geometry option"
  pg_area :: "real option"
  pg_properties :: "(string \<times> string) list"
  pg_created_at :: nat
  pg_updated_at :: nat
  pg_is_active :: bool

text \<open>The two tables, and the supply of fresh primary keys (\<open>uuid.uuid4\<close>).\<close>

record db =
  points :: "point_entity list"
  polygons :: "polygon_entity list"
  next_id :: nat

text \<open>
  The exceptions no handler of the views catches; each ends the request with status 500.
\<close>

datatype exception = IntegrityError | GDALException | TypeError | ValueError

text \<open>
  \<open>SpatialPolygonData.save\<close>, the part before \<open>super().save\<close>: when the instance has a
  geometry (a polygon object is always truthy), the area is set to the area of the
  geometry transformed to SRID 3857. An exception of \<open>transform\<close> leaves \<open>save\<close>.
\<close>

definition save_area :: "platform \<Rightarrow> polygon_entity \<Rightarrow> exception + polygon_entity" where
  "save_area lib self =
     (case pg_geometry self of
        Some geometry \<Rightarrow>
          (case geos_transform lib 3857 geometry of
             None \<Rightarrow> Inl GDALException
           | Some transformed_geom \<Rightarrow>
               Inr (self\<lparr>pg_area := Some (geos_area lib transformed_geom)\<rparr>))
      | None \<Rightarrow> Inr self)"

text \<open>
  \<open>super().save\<close> on the polygon table: the row with the instance's primary key is
  replaced, or the instance is appended when there is none. A missing geometry violates
  the NOT NULL constraint of the column.
\<close>

definition write_polygon :: "polygon_entity \<Rightarrow> polygon_entity list \<Rightarrow> polygon_entity list" where
  "write_polygon self rows =
     (if \<exists>r \<in> set rows. pg_id r = pg_id self
      then map (\<lambda>r. if pg_id r = pg_id self then self else r) rows
      else rows @ [self])"

definition save :: "platform \<Rightarrow> polygon_entity \<Rightarrow> db \<Rightarrow> exception + (polygon_entity \<times> db)" where
  "save lib self d =
     (case save_area lib self of
        Inl e \<Rightarrow> Inl e
      | Inr self' \<Rightarrow>
          (case pg_geometry self' of
             None \<Rightarrow> Inl IntegrityError
           | Some _ \<Rightarrow> Inr (self', d\<lparr>polygons := write_polygon self' (polygons d)\<rparr>)))"

definition write_point :: "point_entity \<Rightarrow> point_entity list \<Rightarrow> point_entity list" where
  "write_point self rows =
     (if \<exists>r \<in> set rows. pt_id r = pt_id self
      then map (\<lambda>r. if pt_id r = pt_id self then self else r) rows
      else rows @ [self])"

definition save_point :: "point_entity \<Rightarrow> db \<Rightarrow> exception + (point_entity \<times> db)" where
  "save_point self d =
     (case pt_location self of
        None \<Rightarrow> Inl IntegrityError
      | Some _ \<Rightarrow> Inr (self, d\<lparr>points := write_point self (points d)\<rparr>))"

definition latitude :: "point_entity \<Rightarrow> real option" where
  "latitude self = (case pt_location self of Some (Point x y) \<Rightarrow> Some y | _ \<Rightarrow> None)"

definition longitude :: "point_entity \<Rightarrow> real option" where
  "longitude self = (case pt_location self of Some (Point x y) \<Rightarrow> Some x | _ \<Rightarrow> None)"

section \<open>serializers.py\<close>

datatype validation_error = ValidationError string

definition validate_location :: "geos_geometry \<Rightarrow> validation_error + geos_geometry" where
  "validate_location v =
     (case v of
        Point x y \<Rightarrow>
          (let lat = y; lng = x
           in if \<not> (- 90 \<le> lat \<and> lat \<le> 90)
              then Inl (ValidationError ''Latitude must be between -90 and 90 degrees'')
              else if \<not> (- 180 \<le> lng \<and> lng \<le> 180)
              then Inl (ValidationError ''Longitude must be between -180 and 180 degrees'')
              else Inr v)
      | _ \<Rightarrow> Inl (ValidationError ''Location must be a valid Point geometry''))"

definition validate_geometry :: "platform \<Rightarrow> geos_geometry \<Rightarrow> validation_error + geos_geometry" where
  "validate_geometry lib v =
     (case v of
        Polygon rings \<Rightarrow>
          (if \<not> geos_valid lib v
           then Inl (ValidationError ''Invalid polygon geometry'')
           else if geos_area lib v < 1 / 10 ^ 10
           then Inl (ValidationError ''Polygon area is too small'')
           else Inr v)
      | _ \<Rightarrow> Inl (ValidationError ''Geometry must be a valid Polygon''))"

text \<open>
  The payload a serializer is given, field by field, as the framework's fields decoded
  it: \<open>None\<close> is an absent field. The geometry field holds the decoded geometry object.
\<close>

record point_data =
  d_name :: "string option"
  d_description :: "string option"
  d_location :: "geos_geometry option"
  d_properties :: "(string \<times> string) list option"
  d_is_active :: "bool option"

record polygon_data =
  g_name :: "string option"
  g_description :: "string option"
  g_geometry :: "geos_geometry option"
  g_area :: "real option"
  g_properties :: "(string \<times> string) list option"
  g_is_active :: "bool option"

text \<open>
  \<open>serializer.errors\<close>: the fields in error, each with its messages. The checks on
  \<open>name\<close> are those the model field declares (required, not blank, at most 255
  characters); a required field may be absent on a partial update.
\<close>

type_synonym errors = "(string \<times> string list) list"

definition name_errors :: "bool \<Rightarrow> string option \<Rightarrow> errors" where
  "name_errors partial n =
     (case n of
        None \<Rightarrow> if partial then [] else [(''name'', [''This field is required.''])]
      | Some s \<Rightarrow>
          if s = [] then [(''name'', [''This field may not be blank.''])]
          else if 255 < length s
          then [(''name'', [''Ensure this field has no more than 255 characters.''])]
          else [])"

definition field_errors ::
  "string \<Rightarrow> bool \<Rightarrow> ('a \<Rightarrow> validation_error + 'a) \<Rightarrow> 'a option \<Rightarrow> errors" where
  "field_errors field partial validate v =
     (case v of
        None \<Rightarrow> if partial then [] else [(field, [''This field is required.''])]
      | Some x \<Rightarrow>
          (case validate x of
             Inl (ValidationError msg) \<Rightarrow> [(field, [msg])]
           | Inr _ \<Rightarrow> []))"

definition point_errors :: "bool \<Rightarrow> point_data \<Rightarrow> errors" where
  "point_errors partial data =
     name_errors partial (d_name data) @
     field_errors ''location'' partial validate_location (d_location data)"

definition polygon_errors :: "platform \<Rightarrow> bool \<Rightarrow> polygon_data \<Rightarrow> errors" where
  "polygon_errors lib partial data =
     name_errors partial (g_name data) @
     field_errors ''geometry'' partial (validate_geometry lib) (g_geometry data)"

text \<open>
  The data a serializer is constructed with is a JSON value: an object, whose fields are
  decoded to the payload above; a number or a boolean; or a string, a list or null.
  \<open>is_valid\<close> of the GeoJSON serializers first evaluates \<open>'properties' in data\<close>, which
  raises \<open>TypeError\<close> on a number or a boolean; a string, a list or null is reported as a
  validation error; an object is valid when its fields have no error, and then
  \<open>validated_data\<close> is the payload.
\<close>

datatype 'i item = Object 'i | Scalar | NotAnObject

definition is_valid :: "('i \<Rightarrow> errors) \<Rightarrow> 'i item \<Rightarrow> exception + (errors + 'i)" where
  "is_valid errs_of item =
     (case item of
        Scalar \<Rightarrow> Inl TypeError
      | NotAnObject \<Rightarrow> Inr (Inl [(''non_field_errors'', [''Invalid data. Expected a dictionary.''])])
      | Object data \<Rightarrow>
          if errs_of data = [] then Inr (Inr data) else Inr (Inl (errs_of data)))"

text \<open>
  \<open>serializer.save()\<close>: on create, an instance is built from the validated fields and
  the model's defaults; on update, the fields present in the payload are set on the
  instance. Then the instance is saved.
\<close>

definition or_default :: "'a option \<Rightarrow> 'a \<Rightarrow> 'a" where
  "or_default v dflt = (case v of Some x \<Rightarrow> x | None \<Rightarrow> dflt)"

definition new_point :: "nat \<Rightarrow> nat \<Rightarrow> point_data \<Rightarrow> point_entity" where
  "new_point now uuid data =
     \<lparr>pt_id = uuid, pt_name = or_default (d_name data) [],
      pt_description = d_description data, pt_location = d_location data,
      pt_properties = or_default (d_properties data) [],
      pt_created_at = now, pt_updated_at = now,
      pt_is_active = or_default (d_is_active data) True\<rparr>"

definition set_point :: "nat \<Rightarrow> point_data \<Rightarrow> point_entity \<Rightarrow> point_entity" where
  "set_point now data inst =
     inst\<lparr>pt_name := or_default (d_name data) (pt_name inst),
          pt_description := (case d_description data of Some s \<Rightarrow> Some s | None \<Rightarrow> pt_description inst),
          pt_location := (case d_location data of Some g \<Rightarrow> Some g | None \<Rightarrow> pt_location inst),
          pt_properties := or_default (d_properties data) (pt_properties inst),
          pt_updated_at := now,
          pt_is_active := or_default (d_is_active data) (pt_is_active inst)\<rparr>"

definition new_polygon :: "nat \<Rightarrow> nat \<Rightarrow> polygon_data \<Rightarrow> polygon_entity" where
  "new_polygon now uuid data =
     \<lparr>pg_id = uuid, pg_name = or_default (g_name data) [],
      pg_description = g_description data, pg_geometry = g_geometry data,
      pg_area = g_area data,
      pg_properties = or_default (g_properties data) [],
      pg_created_at = now, pg_updated_at = now,
      pg_is_active = or_default (g_is_active data) True\<rparr>"

definition set_polygon :: "nat \<Rightarrow> polygon_data \<Rightarrow> polygon_entity \<Rightarrow> polygon_entity" where
  "set_polygon now data inst =
     inst\<lparr>pg_name := or_default (g_name data) (pg_name inst),
          pg_description := (case g_description data of Some s \<Rightarrow> Some s | None \<Rightarrow> pg_description inst),
          pg_geometry := (case g_geometry data of Some g \<Rightarrow> Some g | None \<Rightarrow> pg_geometry inst),
          pg_area := (case g_area data of Some a \<Rightarrow> Some a | None \<Rightarrow> pg_area inst),
          pg_properties := or_default (g_properties data) (pg_properties inst),
          pg_updated_at := now,
          pg_is_active := or_default (g_is_active data) (pg_is_active inst)\<rparr>"

definition create_point :: "nat \<Rightarrow> point_data \<Rightarrow> db \<Rightarrow> exception + (point_entity \<times> db)" where
  "create_point now data d =
     save_point (new_point now (next_id d) data) (d\<lparr>next_id := Suc (next_id d)\<rparr>)"

definition update_point ::
  "nat \<Rightarrow> point_entity \<Rightarrow> point_data \<Rightarrow> db \<Rightarrow> exception + (point_entity \<times> db)" where
  "update_point now inst data d = save_point (set_point now data inst) d"

definition create_polygon ::
  "platform \<Rightarrow> nat \<Rightarrow> polygon_data \<Rightarrow> db \<Rightarrow> exception + (polygon_entity \<times> db)" where
  "create_polygon lib now data d =
     save lib (new_polygon now (next_id d) data) (d\<lparr>next_id := Suc (next_id d)\<rparr>)"

definition update_polygon ::
  "platform \<Rightarrow> nat \<Rightarrow> polygon_entity \<Rightarrow> polygon_data \<Rightarrow> db \<Rightarrow> exception + (polygon_entity \<times> db)" where
  "update_polygon lib now inst data d = save lib (set_polygon now data inst) d"

section \<open>Python and framework helpers used by the views\<close>

text \<open>\<open>str.lower\<close> and the \<open>icontains\<close> lookup, on ASCII letters.\<close>

definition lower_char :: "char \<Rightarrow> char" where
  "lower_char c =
     (case map_of (zip ''ABCDEFGHIJKLMNOPQRSTUVWXYZ'' ''abcdefghijklmnopqrstuvwxyz'') c of
        Some l \<Rightarrow> l
      | None \<Rightarrow> c)"

definition lower :: "string \<Rightarrow> string" where
  "lower s = map lower_char s"

definition icontains :: "string \<Rightarrow> string \<Rightarrow> bool" where
  "icontains needle s = sublist (lower needle) (lower s)"

text \<open>Rounding to the nearest integer, a tie to the even one.\<close>

definition round_half_even :: "real \<Rightarrow> int" where
  "round_half_even x =
     (let f = \<lfloor>x\<rfloor>; r = x - of_int f
      in if r < 1 / 2 then f
         else if 1 / 2 < r then f + 1
         else if even f then f else f + 1)"

text \<open>
  A Python float is an IEEE 754 binary64 number: \<open>m * 2 ^ e\<close> with \<open>\<bar>m\<bar> < 2 ^ 53\<close> and
  \<open>- 1074 \<le> e \<le> 971\<close>. \<open>float_exponent x\<close> is the exponent of the floats next to \<open>x\<close>
  (the least one, \<open>- 1074\<close>, in the subnormal range), and \<open>fl x\<close> is the float nearest to
  \<open>x\<close>, a tie to the even significand: the result of every float operation is \<open>fl\<close> of
  the exact result. Overflow to infinity is outside the model.
\<close>

fun exponent_down :: "nat \<Rightarrow> real \<Rightarrow> int \<Rightarrow> int" where
  "exponent_down 0 a e = e"
| "exponent_down (Suc k) a e =
     (if 2 ^ 52 * 2 powi e \<le> a then e else exponent_down k a (e - 1))"

fun exponent_up :: "nat \<Rightarrow> real \<Rightarrow> int \<Rightarrow> int" where
  "exponent_up 0 a e = e"
| "exponent_up (Suc k) a e =
     (if a < 2 ^ 53 * 2 powi e then e else exponent_up k a (e + 1))"

definition float_exponent :: "real \<Rightarrow> int" where
  "float_exponent x =
     (let a = \<bar>x\<bar>
      in if 2 ^ 53 \<le> a then exponent_up 971 a 0 else exponent_down 1074 a 0)"

definition fl :: "real \<Rightarrow> real" where
  "fl x =
     (if x = 0 then 0
      else (let e = float_exponent x
            in of_int (round_half_even (x / 2 powi e)) * 2 powi e))"

definition fadd :: "real \<Rightarrow> real \<Rightarrow> real" where
  "fadd a b = fl (a + b)"

definition fdiv :: "real \<Rightarrow> real \<Rightarrow> real" where
  "fdiv a b = fl (a / b)"

text \<open>
  \<open>round(x, ndigits)\<close> on a float: the exact value of \<open>x\<close> is rounded to the nearest
  multiple of \<open>10 ^ -ndigits\<close>, a tie to the even one, and the result is the float
  nearest to that decimal.
\<close>

definition py_round :: "real \<Rightarrow> nat \<Rightarrow> real" where
  "py_round x ndigits = fl (of_int (round_half_even (x * 10 ^ ndigits)) / 10 ^ ndigits)"

text \<open>
  \<open>float(request.GET.get(key))\<close>: \<open>TypeError\<close> on a missing parameter, \<open>ValueError\<close> on
  one that is not a number; both are \<open>None\<close>.
\<close>

type_synonym query = "(string \<times> string) list"

definition float_param :: "platform \<Rightarrow> query \<Rightarrow> string \<Rightarrow> real option" where
  "float_param lib q key =
     (case map_of q key of None \<Rightarrow> None | Some s \<Rightarrow> py_float lib s)"

text \<open>
  \<open>order_by\<close>, ascending and descending, and \<open>Sum\<close> over a nullable float column: the
  values that are not NULL are added as floats, in the order of the rows; the sum of no
  value is NULL.
\<close>

definition order_by :: "('a \<Rightarrow> 'k::linorder) \<Rightarrow> 'a list \<Rightarrow> 'a list" where
  "order_by key rows = sort_key key rows"

definition order_by_desc :: "('a \<Rightarrow> 'k::linorder) \<Rightarrow> 'a list \<Rightarrow> 'a list" where
  "order_by_desc key rows = rev (sort_key key rows)"

definition sql_sum :: "real option list \<Rightarrow> real option" where
  "sql_sum vs =
     (case List.map_filter (\<lambda>v. v) vs of [] \<Rightarrow> None | x # xs \<Rightarrow> Some (foldl fadd x xs))"

text \<open>
  \<open>StandardResultsSetPagination\<close>: \<open>page_size = 20\<close>,
  \<open>page_size_query_param = 'page_size'\<close>, \<open>max_page_size = 100\<close>, with the page-number
  paginator's behaviour: a \<open>page_size\<close> parameter that is a positive integer is used, cut
  off at the maximum; any other falls back to the default. A page number outside
  \<open>1 .. num_pages\<close> is an invalid page.
\<close>

definition page_size :: nat where "page_size = 20"
definition page_size_query_param :: string where "page_size_query_param = ''page_size''"
definition max_page_size :: nat where "max_page_size = 100"

definition get_page_size :: "platform \<Rightarrow> query \<Rightarrow> nat" where
  "get_page_size lib q =
     (case map_of q page_size_query_param of
        None \<Rightarrow> page_size
      | Some s \<Rightarrow>
          (case py_int lib s of
             None \<Rightarrow> page_size
           | Some n \<Rightarrow> if n \<le> 0 then page_size else min (nat n) max_page_size))"

datatype 'a page_result = NoPage | InvalidPage | PageOf "'a list"

definition paginate_queryset :: "platform \<Rightarrow> query \<Rightarrow> 'a list \<Rightarrow> 'a page_result" where
  "paginate_queryset lib q queryset =
     (let size = get_page_size lib q
      in if size = 0 then NoPage
         else
           (let count = length queryset;
                num_pages = (if count = 0 then 1 else (count + size - 1) div size);
                page_number =
                  (case map_of q ''page'' of
                     None \<Rightarrow> Some 1
                   | Some s \<Rightarrow>
                       if s = [] then Some 1
                       else if s = ''last'' then Some (int num_pages)
                       else py_int lib s)
            in case page_number of
                 None \<Rightarrow> InvalidPage
               | Some n \<Rightarrow>
                   if n < 1 \<or> int num_pages < n then InvalidPage
                   else PageOf (take size (drop ((nat n - 1) * size) queryset))))"

section \<open>views.py\<close>

datatype http_method = GET | POST | PUT | PATCH | DELETE

record 'e bulk_body =
  bk_created :: nat
  bk_errors :: nat
  bk_created_items :: "'e list"
  bk_validation_errors :: "(nat \<times> errors) list option"

record summary =
  total_points :: nat
  total_polygons :: nat
  total_polygon_area_sqm :: real
  total_polygon_area_sqkm :: real
  timestamp :: nat

text \<open>
  A response is its status code and its body. A serialized entity is the entity
  itself: the serializers project it to fewer fields.
\<close>

datatype 'e body =
    Error string
  | Errors errors
  | Entity 'e
  | Entities "'e list"
  | Page nat "'e list"
  | Nearby "('e \<times> real) list"
  | Bulk "'e bulk_body"
  | Summary summary
  | NoContent

datatype 'e response = Response (status: nat) (body: "'e body")

definition HTTP_404 :: "'e response" where
  "HTTP_404 = Response 404 (Error ''Not found.'')"

definition HTTP_405 :: "'e response" where
  "HTTP_405 = Response 405 (Error ''Method not allowed.'')"

definition exception_name :: "exception \<Rightarrow> string" where
  "exception_name e =
     (case e of
        IntegrityError \<Rightarrow> ''IntegrityError''
      | GDALException \<Rightarrow> ''GDALException''
      | TypeError \<Rightarrow> ''TypeError''
      | ValueError \<Rightarrow> ''ValueError'')"

definition HTTP_500 :: "exception \<Rightarrow> 'e response" where
  "HTTP_500 e = Response 500 (Error (exception_name e))"

subsection \<open>Points\<close>

text \<open>The queryset the GET branch of \<open>spatial_points_list_create\<close> builds.\<close>

definition points_queryset :: "query \<Rightarrow> db \<Rightarrow> point_entity list" where
  "points_queryset q d =
     (let name = map_of q ''name'';
          is_active = map_of q ''is_active'';
          queryset = order_by_desc pt_created_at (points d);
          queryset =
            (case name of
               Some n \<Rightarrow> if n \<noteq> [] then filter (\<lambda>e. icontains n (pt_name e)) queryset else queryset
             | None \<Rightarrow> queryset);
          queryset =
            (case is_active of
               Some v \<Rightarrow> filter (\<lambda>e. pt_is_active e = (lower v = ''true'')) queryset
             | None \<Rightarrow> queryset)
      in queryset)"

definition spatial_points_list_create ::
  "platform \<Rightarrow> nat \<Rightarrow> http_method \<Rightarrow> query \<Rightarrow> point_data item \<Rightarrow> db \<Rightarrow>
   point_entity response \<times> db" where
  "spatial_points_list_create lib now m q data d =
     (case m of
        GET \<Rightarrow>
          (let queryset = points_queryset q d
           in case paginate_queryset lib q queryset of
                InvalidPage \<Rightarrow> (HTTP_404, d)
              | PageOf page \<Rightarrow> (Response 200 (Page (length queryset) page), d)
              | NoPage \<Rightarrow> (Response 200 (Entities queryset), d))
      | POST \<Rightarrow>
          (case is_valid (point_errors False) data of
             Inl e \<Rightarrow> (HTTP_500 e, d)
           | Inr (Inr validated_data) \<Rightarrow>
               (case create_point now validated_data d of
                  Inr (point, d') \<Rightarrow> (Response 201 (Entity point), d')
                | Inl e \<Rightarrow> (HTTP_500 e, d))
           | Inr (Inl errs) \<Rightarrow> (Response 400 (Errors errs), d))
      | _ \<Rightarrow> (HTTP_405, d))"

definition spatial_point_detail ::
  "nat \<Rightarrow> http_method \<Rightarrow> nat \<Rightarrow> point_data item \<Rightarrow> db \<Rightarrow> point_entity response \<times> db" where
  "spatial_point_detail now m point_id data d =
     (if m = POST then (HTTP_405, d)
      else
        (case find (\<lambda>e. pt_id e = point_id) (points d) of
           None \<Rightarrow> (HTTP_404, d)
         | Some point \<Rightarrow>
             if m = GET then (Response 200 (Entity point), d)
             else if m = PUT \<or> m = PATCH then
               (let partial = (m = PATCH)
                in case is_valid (point_errors partial) data of
                     Inl e \<Rightarrow> (HTTP_500 e, d)
                   | Inr (Inr validated_data) \<Rightarrow>
                       (case update_point now point validated_data d of
                          Inr (point', d') \<Rightarrow> (Response 200 (Entity point'), d')
                        | Inl e \<Rightarrow> (HTTP_500 e, d))
                   | Inr (Inl errs) \<Rightarrow> (Response 400 (Errors errs), d))
             else (Response 204 NoContent,
                   d\<lparr>points := filter (\<lambda>e. pt_id e \<noteq> point_id) (points d)\<rparr>)))"

text \<open>
  The bound of a \<open>dwithin\<close> lookup is a \<open>Distance\<close> object (\<open>D(m=...)\<close>) or a plain
  number, in the units of the column. The ORM turns it into the parameter of the query
  (\<open>get_distance\<close> of the spatial backend): a \<open>Distance\<close> object is refused with
  \<open>ValueError\<close> (only numeric values of degree units are allowed on geographic DWithin
  queries) on a column that is geodetic and not of geography type. Both geometry columns
  are declared with \<open>srid=4326\<close> and without \<open>geography=True\<close>; SRID 4326 is geodetic.
\<close>

datatype distance_arg = D real | Degrees real

record geometry_field =
  srid :: nat
  geography :: bool

definition location_field :: geometry_field where
  "location_field = \<lparr>srid = 4326, geography = False\<rparr>"

definition geodetic :: "geometry_field \<Rightarrow> bool" where
  "geodetic f = (srid f = 4326)"

definition get_distance :: "geometry_field \<Rightarrow> distance_arg \<Rightarrow> exception + real" where
  "get_distance f v =
     (case v of
        D m \<Rightarrow>
          if geography f then Inr m
          else if geodetic f then Inl ValueError
          else Inr m
      | Degrees x \<Rightarrow> Inr x)"

text \<open>
  \<open>spatial_points_nearby\<close>. The three conversions are tried in the source's order;
  a missing \<open>distance\<close> is the default 1000. The queryset is evaluated by the loop of
  the view, outside its \<open>try\<close>: an exception of the lookup ends the request.
\<close>

definition nearby_points ::
  "platform \<Rightarrow> real \<Rightarrow> real \<Rightarrow> real \<Rightarrow> db \<Rightarrow> exception + point_entity list" where
  "nearby_points lib lat lng distance d =
     (let search_point = Point lng lat
      in case get_distance location_field (D distance) of
           Inl e \<Rightarrow> Inl e
         | Inr bound \<Rightarrow>
             Inr (order_by
                    (\<lambda>e. case pt_location e of Some g \<Rightarrow> db_distance lib g search_point | None \<Rightarrow> 0)
                    (filter (\<lambda>e. (case pt_location e of
                                     Some g \<Rightarrow> db_dwithin lib g search_point bound
                                   | None \<Rightarrow> False) \<and> pt_is_active e)
                       (points d))))"

definition distance_m :: "platform \<Rightarrow> real \<Rightarrow> real \<Rightarrow> point_entity \<Rightarrow> real" where
  "distance_m lib lat lng e =
     (case pt_location e of Some g \<Rightarrow> db_distance lib g (Point lng lat) | None \<Rightarrow> 0)"

definition spatial_points_nearby :: "platform \<Rightarrow> query \<Rightarrow> db \<Rightarrow> point_entity response" where
  "spatial_points_nearby lib q d =
     (let invalid =
            Response 400 (Error ''Invalid parameters. lat, lng, and distance must be numbers'')
      in case float_param lib q ''lat'' of
           None \<Rightarrow> invalid
         | Some lat \<Rightarrow>
             (case float_param lib q ''lng'' of
                None \<Rightarrow> invalid
              | Some lng \<Rightarrow>
                  (case (case map_of q ''distance'' of
                           None \<Rightarrow> Some 1000
                         | Some s \<Rightarrow> py_float lib s) of
                     None \<Rightarrow> invalid
                   | Some distance \<Rightarrow>
                       (case nearby_points lib lat lng distance d of
                          Inl e \<Rightarrow> HTTP_500 e
                        | Inr rows \<Rightarrow>
                            Response 200
                              (Nearby (map (\<lambda>point. (point, py_round (distance_m lib lat lng point) 2))
                                         rows))))))"

text \<open>
  The loop of the two bulk views: each item is validated and, when valid, saved at once;
  an invalid item is recorded with its index. The loop has no \<open>try\<close>: an exception of
  \<open>is_valid\<close> or of \<open>save\<close> leaves it, with the rows written so far and the later items
  not looked at.
\<close>

fun bulk_loop ::
  "('i \<Rightarrow> errors) \<Rightarrow> ('i \<Rightarrow> db \<Rightarrow> exception + ('e \<times> db)) \<Rightarrow> nat \<Rightarrow> 'i item list \<Rightarrow>
   'e list \<Rightarrow> (nat \<times> errors) list \<Rightarrow> db \<Rightarrow> (exception \<times> db) + ('e list \<times> (nat \<times> errors) list \<times> db)" where
  "bulk_loop errs_of create i [] created errors d = Inr (created, errors, d)"
| "bulk_loop errs_of create i (item # items) created errors d =
     (case is_valid errs_of item of
        Inl e \<Rightarrow> Inl (e, d)
      | Inr (Inr validated_data) \<Rightarrow>
          (case create validated_data d of
             Inl e \<Rightarrow> Inl (e, d)
           | Inr (obj, d') \<Rightarrow> bulk_loop errs_of create (Suc i) items (created @ [obj]) errors d')
      | Inr (Inl errs) \<Rightarrow> bulk_loop errs_of create (Suc i) items created (errors @ [(i, errs)]) d)"

text \<open>
  \<open>request.data\<close> of a bulk request, as far as the views look at it: a dictionary, a list
  of items, or anything else.
\<close>

datatype 'i request_data =
    JOther
  | JList "'i item list"
  | JDict "(string \<times> 'i request_data) list"

definition bulk_response ::
  "'e list \<Rightarrow> (nat \<times> errors) list \<Rightarrow> 'e response" where
  "bulk_response created_items errors =
     (let response_data =
            \<lparr>bk_created = length created_items, bk_errors = length errors,
             bk_created_items = created_items, bk_validation_errors = None\<rparr>
      in if errors \<noteq> []
         then Response 207 (Bulk (response_data\<lparr>bk_validation_errors := Some errors\<rparr>))
         else Response 201 (Bulk response_data))"

definition spatial_points_bulk_create ::
  "nat \<Rightarrow> point_data request_data \<Rightarrow> db \<Rightarrow> point_entity response \<times> db" where
  "spatial_points_bulk_create now data d =
     (case data of
        JDict kvs \<Rightarrow>
          (case map_of kvs ''points'' of
             None \<Rightarrow> (Response 400 (Error ''Request must contain points array''), d)
           | Some points_data \<Rightarrow>
               (case points_data of
                  JList items \<Rightarrow>
                    (case bulk_loop (point_errors False) (create_point now) 0 items [] [] d of
                       Inl (e, d') \<Rightarrow> (HTTP_500 e, d')
                     | Inr (created_points, errors, d') \<Rightarrow>
                         (bulk_response created_points errors, d'))
                | _ \<Rightarrow> (Response 400 (Error ''Points must be an array''), d)))
      | _ \<Rightarrow> (Response 400 (Error ''Request must contain points array''), d))"

subsection \<open>Polygons\<close>

text \<open>
  The queryset the GET branch of \<open>spatial_polygons_list_create\<close> builds. A bound that
  \<open>float\<close> rejects is passed over; a comparison with a NULL area is false.
\<close>

definition polygons_queryset :: "platform \<Rightarrow> query \<Rightarrow> db \<Rightarrow> polygon_entity list" where
  "polygons_queryset lib q d =
     (let name = map_of q ''name'';
          is_active = map_of q ''is_active'';
          min_area = map_of q ''min_area'';
          max_area = map_of q ''max_area'';
          queryset = order_by_desc pg_created_at (polygons d);
          queryset =
            (case name of
               Some n \<Rightarrow> if n \<noteq> [] then filter (\<lambda>e. icontains n (pg_name e)) queryset else queryset
             | None \<Rightarrow> queryset);
          queryset =
            (case is_active of
               Some v \<Rightarrow> filter (\<lambda>e. pg_is_active e = (lower v = ''true'')) queryset
             | None \<Rightarrow> queryset);
          queryset =
            (case min_area of
               Some s \<Rightarrow>
                 if s \<noteq> [] then
                   (case py_float lib s of
                      Some lo \<Rightarrow>
                        filter (\<lambda>e. case pg_area e of Some a \<Rightarrow> lo \<le> a | None \<Rightarrow> False) queryset
                    | None \<Rightarrow> queryset)
                 else queryset
             | None \<Rightarrow> queryset);
          queryset =
            (case max_area of
               Some s \<Rightarrow>
                 if s \<noteq> [] then
                   (case py_float lib s of
                      Some hi \<Rightarrow>
                        filter (\<lambda>e. case pg_area e of Some a \<Rightarrow> a \<le> hi | None \<Rightarrow> False) queryset
                    | None \<Rightarrow> queryset)
                 else queryset
             | None \<Rightarrow> queryset)
      in queryset)"

definition spatial_polygons_list_create ::
  "platform \<Rightarrow> nat \<Rightarrow> http_method \<Rightarrow> query \<Rightarrow> polygon_data item \<Rightarrow> db \<Rightarrow>
   polygon_entity response \<times> db" where
  "spatial_polygons_list_create lib now m q data d =
     (case m of
        GET \<Rightarrow>
          (let queryset = polygons_queryset lib q d
           in case paginate_queryset lib q queryset of
                InvalidPage \<Rightarrow> (HTTP_404, d)
              | PageOf page \<Rightarrow> (Response 200 (Page (length queryset) page), d)
              | NoPage \<Rightarrow> (Response 200 (Entities queryset), d))
      | POST \<Rightarrow>
          (case is_valid (polygon_errors lib False) data of
             Inl e \<Rightarrow> (HTTP_500 e, d)
           | Inr (Inr validated_data) \<Rightarrow>
               (case create_polygon lib now validated_data d of
                  Inr (polygon, d') \<Rightarrow> (Response 201 (Entity polygon), d')
                | Inl e \<Rightarrow> (HTTP_500 e, d))
           | Inr (Inl errs) \<Rightarrow> (Response 400 (Errors errs), d))
      | _ \<Rightarrow> (HTTP_405, d))"

definition spatial_polygon_detail ::
  "platform \<Rightarrow> nat \<Rightarrow> http_method \<Rightarrow> nat \<Rightarrow> polygon_data item \<Rightarrow> db \<Rightarrow>
   polygon_entity response \<times> db" where
  "spatial_polygon_detail lib now m polygon_id data d =
     (if m = POST then (HTTP_405, d)
      else
        (case find (\<lambda>e. pg_id e = polygon_id) (polygons d) of
           None \<Rightarrow> (HTTP_404, d)
         | Some polygon \<Rightarrow>
             if m = GET then (Response 200 (Entity polygon), d)
             else if m = PUT \<or> m = PATCH then
               (let partial = (m = PATCH)
                in case is_valid (polygon_errors lib partial) data of
                     Inl e \<Rightarrow> (HTTP_500 e, d)
                   | Inr (Inr validated_data) \<Rightarrow>
                       (case update_polygon lib now polygon validated_data d of
                          Inr (polygon', d') \<Rightarrow> (Response 200 (Entity polygon'), d')
                        | Inl e \<Rightarrow> (HTTP_500 e, d))
                   | Inr (Inl errs) \<Rightarrow> (Response 400 (Errors errs), d))
             else (Response 204 NoContent,
                   d\<lparr>polygons := filter (\<lambda>e. pg_id e \<noteq> polygon_id) (polygons d)\<rparr>)))"

definition containing_polygons :: "platform \<Rightarrow> real \<Rightarrow> real \<Rightarrow> db \<Rightarrow> polygon_entity list" where
  "containing_polygons lib lat lng d =
     (let search_point = Point lng lat
      in filter (\<lambda>e. (case pg_geometry e of
                         Some g \<Rightarrow> db_contains lib g search_point
                       | None \<Rightarrow> False) \<and> pg_is_active e)
           (polygons d))"

definition spatial_polygons_containing_point ::
  "platform \<Rightarrow> query \<Rightarrow> db \<Rightarrow> polygon_entity response" where
  "spatial_polygons_containing_point lib q d =
     (let invalid = Response 400 (Error ''Invalid parameters. lat and lng must be numbers'')
      in case float_param lib q ''lat'' of
           None \<Rightarrow> invalid
         | Some lat \<Rightarrow>
             (case float_param lib q ''lng'' of
                None \<Rightarrow> invalid
              | Some lng \<Rightarrow> Response 200 (Entities (containing_polygons lib lat lng d))))"

definition spatial_polygons_intersecting ::
  "platform \<Rightarrow> nat \<Rightarrow> db \<Rightarrow> polygon_entity response" where
  "spatial_polygons_intersecting lib polygon_id d =
     (case find (\<lambda>e. pg_id e = polygon_id) (polygons d) of
        None \<Rightarrow> HTTP_404
      | Some polygon \<Rightarrow>
          Response 200
            (Entities
               (filter (\<lambda>e. pg_id e \<noteq> polygon_id)
                  (filter (\<lambda>e. (case (pg_geometry e, pg_geometry polygon) of
                                   (Some g, Some h) \<Rightarrow> db_intersects lib g h
                                 | _ \<Rightarrow> False) \<and> pg_is_active e)
                     (polygons d)))))"

definition spatial_polygons_bulk_create ::
  "platform \<Rightarrow> nat \<Rightarrow> polygon_data request_data \<Rightarrow> db \<Rightarrow> polygon_entity response \<times> db" where
  "spatial_polygons_bulk_create lib now data d =
     (case data of
        JDict kvs \<Rightarrow>
          (case map_of kvs ''polygons'' of
             None \<Rightarrow> (Response 400 (Error ''Request must contain polygons array''), d)
           | Some polygons_data \<Rightarrow>
               (case polygons_data of
                  JList items \<Rightarrow>
                    (case bulk_loop (polygon_errors lib False) (create_polygon lib now) 0 items [] [] d of
                       Inl (e, d') \<Rightarrow> (HTTP_500 e, d')
                     | Inr (created_polygons, errors, d') \<Rightarrow>
                         (bulk_response created_polygons errors, d'))
                | _ \<Rightarrow> (Response 400 (Error ''Polygons must be an array''), d)))
      | _ \<Rightarrow> (Response 400 (Error ''Request must contain polygons array''), d))"

subsection \<open>Summary\<close>

definition spatial_analysis_summary :: "nat \<Rightarrow> db \<Rightarrow> unit response" where
  "spatial_analysis_summary now d =
     (let point_count = length (filter pt_is_active (points d));
          polygon_count = length (filter pg_is_active (polygons d));
          total_area =
            (case sql_sum (map pg_area (filter pg_is_active (polygons d))) of
               None \<Rightarrow> 0
             | Some t \<Rightarrow> if t = 0 then 0 else t)
      in Response 200
           (Summary
              \<lparr>total_points = point_count,
               total_polygons = polygon_count,
               total_polygon_area_sqm = py_round total_area 2,
               total_polygon_area_sqkm = py_round (fdiv total_area 1000000) 2,
               timestamp = now\<rparr>))"

section \<open>urls.py: the requests that write, as one transition on the database\<close>

datatype api_request =
    PointsListCreate http_method query "point_data item"
  | PointDetail http_method nat "point_data item"
  | PointsBulk "point_data request_data"
  | PolygonsListCreate http_method query "polygon_data item"
  | PolygonDetail http_method nat "polygon_data item"
  | PolygonsBulk "polygon_data request_data"

fun handle :: "platform \<Rightarrow> nat \<Rightarrow> api_request \<Rightarrow> db \<Rightarrow> db" where
  "handle lib now (PointsListCreate m q data) d = snd (spatial_points_list_create lib now m q data d)"
| "handle lib now (PointDetail m i data) d = snd (spatial_point_detail now m i data d)"
| "handle lib now (PointsBulk data) d = snd (spatial_points_bulk_create now data d)"
| "handle lib now (PolygonsListCreate m q data) d = snd (spatial_polygons_list_create lib now m q data d)"
| "handle lib now (PolygonDetail m i data) d = snd (spatial_polygon_detail lib now m i data d)"
| "handle lib now (PolygonsBulk data) d = snd (spatial_polygons_bulk_create lib now data d)"

text \<open>A run of requests, each with the time it is served at.\<close>

fun run :: "platform \<Rightarrow> (nat \<times> api_request) list \<Rightarrow> db \<Rightarrow> db" where
  "run lib [] d = d"
| "run lib ((now, r) # rs) d = run lib rs (handle lib now r d)"

section \<open>A reference platform\<close>

text \<open>
  An executable instance of the collaborators, on which the views can be evaluated at
  concrete inputs: shoelace area of the rings, the projection replaced by a uniform
  scaling of the coordinates (100000 units per degree) that fails on a latitude outside
  the open interval from -90 to 90, taxicab distance in the same units,
  containment in the bounding box of the shell, and number conversions that read decimal
  integers.
\<close>

fun shoelace :: "coord list \<Rightarrow> real" where
  "shoelace (p # q # ps) = (fst p * snd q - fst q * snd p) + shoelace (q # ps)"
| "shoelace _ = 0"

definition ring_area :: "coord list \<Rightarrow> real" where
  "ring_area r = \<bar>shoelace r\<bar> / 2"

definition planar_area :: "geos_geometry \<Rightarrow> real" where
  "planar_area g =
     (case g of
        Polygon (shell # holes) \<Rightarrow> \<bar>ring_area shell - sum_list (map ring_area holes)\<bar>
      | _ \<Rightarrow> 0)"

definition closed_ring :: "coord list \<Rightarrow> bool" where
  "closed_ring r = (4 \<le> length r \<and> hd r = last r)"

definition planar_valid :: "geos_geometry \<Rightarrow> bool" where
  "planar_valid g =
     (case g of Polygon rings \<Rightarrow> rings \<noteq> [] \<and> list_all closed_ring rings | _ \<Rightarrow> True)"

definition scale :: "real \<Rightarrow> geos_geometry \<Rightarrow> geos_geometry" where
  "scale k g =
     (case g of
        Point x y \<Rightarrow> Point (k * x) (k * y)
      | LineString ps \<Rightarrow> LineString (map (\<lambda>p. (k * fst p, k * snd p)) ps)
      | Polygon rings \<Rightarrow> Polygon (map (map (\<lambda>p. (k * fst p, k * snd p))) rings))"

definition latitudes :: "geos_geometry \<Rightarrow> real list" where
  "latitudes g =
     (case g of
        Point x y \<Rightarrow> [y]
      | LineString ps \<Rightarrow> map snd ps
      | Polygon rings \<Rightarrow> map snd (concat rings))"

definition planar_transform :: "nat \<Rightarrow> geos_geometry \<Rightarrow> geos_geometry option" where
  "planar_transform target g =
     (if target = 3857
      then (if list_all (\<lambda>y. - 90 < y \<and> y < 90) (latitudes g)
            then Some (scale 100000 g) else None)
      else Some g)"

definition taxicab :: "geos_geometry \<Rightarrow> geos_geometry \<Rightarrow> real" where
  "taxicab a b =
     (case (a, b) of
        (Point x y, Point u v) \<Rightarrow> 100000 * (\<bar>x - u\<bar> + \<bar>y - v\<bar>)
      | _ \<Rightarrow> 0)"

definition bbox_contains :: "geos_geometry \<Rightarrow> geos_geometry \<Rightarrow> bool" where
  "bbox_contains g p =
     (case (g, p) of
        (Polygon (shell # holes), Point x y) \<Rightarrow>
          list_ex (\<lambda>c. fst c < x) shell \<and> list_ex (\<lambda>c. x < fst c) shell \<and>
          list_ex (\<lambda>c. snd c < y) shell \<and> list_ex (\<lambda>c. y < snd c) shell
      | _ \<Rightarrow> False)"

definition bbox_intersects :: "geos_geometry \<Rightarrow> geos_geometry \<Rightarrow> bool" where
  "bbox_intersects g h =
     (case (g, h) of
        (Polygon (s # _), Polygon (t # _)) \<Rightarrow>
          list_ex (\<lambda>c. bbox_contains g (Point (fst c) (snd c))) t \<or>
          list_ex (\<lambda>c. bbox_contains h (Point (fst c) (snd c))) s
      | _ \<Rightarrow> False)"

fun digits_val :: "nat \<Rightarrow> string \<Rightarrow> nat option" where
  "digits_val acc [] = Some acc"
| "digits_val acc (c # cs) =
     (let n = (of_char c :: nat)
      in if 48 \<le> n \<and> n \<le> 57 then digits_val (10 * acc + (n - 48)) cs else None)"

definition parse_int :: "string \<Rightarrow> int option" where
  "parse_int s =
     (case s of
        [] \<Rightarrow> None
      | c # cs \<Rightarrow>
          if c = CHR ''-''
          then (if cs = [] then None else map_option (\<lambda>n. - int n) (digits_val 0 cs))
          else map_option int (digits_val 0 s))"

definition parse_float :: "string \<Rightarrow> real option" where
  "parse_float s = map_option of_int (parse_int s)"

definition reference_platform :: platform where
  "reference_platform =
     \<lparr>geos_valid = planar_valid, geos_area = planar_area, geos_transform = planar_transform,
      db_dwithin = (\<lambda>a b dist. taxicab a b \<le> dist), db_distance = taxicab,
      db_contains = bbox_contains, db_intersects = bbox_intersects,
      py_float = parse_float, py_int = parse_int\<rparr>"

definition empty_db :: db where
  "empty_db = \<lparr>points = [], polygons = [], next_id = 0\<rparr>"

text \<open>A square of 0.01 degrees by 0.01 degrees, sent with an area of the caller's own.\<close>

definition square_data :: polygon_data where
  "square_data =
     \<lparr>g_name = Some ''square'', g_description = None,
      g_geometry = Some (Polygon [[(0, 0), (0, 1 / 100), (1 / 100, 1 / 100), (1 / 100, 0), (0, 0)]]),
      g_area = Some 5, g_properties = None, g_is_active = None\<rparr>"

text \<open>The row a POST of the square at time 8 stores in the empty database.\<close>

definition square :: polygon_entity where
  "square = (new_polygon 8 0 square_data)\<lparr>pg_area := Some 1000000\<rparr>"

text \<open>Point payloads: one in range, one with latitude 95, one that is not a point.\<close>

definition point_payload :: "string \<Rightarrow> geos_geometry \<Rightarrow> point_data" where
  "point_payload n g =
     \<lparr>d_name = Some n, d_description = None, d_location = Some g,
      d_properties = None, d_is_active = None\<rparr>"

definition nyc_data :: point_data where
  "nyc_data = point_payload ''nyc'' (Point (- 73) 40)"

definition bad_lat_data :: point_data where
  "bad_lat_data = point_payload ''off the map'' (Point 10 95)"

definition line_data :: point_data where
  "line_data = point_payload ''a line'' (LineString [(0, 0), (1, 1)])"

definition harbour_data :: point_data where
  "harbour_data = point_payload ''harbour'' (Point 1 2)"

text \<open>A polygon payload whose geometry is a point.\<close>

definition not_a_polygon_data :: polygon_data where
  "not_a_polygon_data =
     \<lparr>g_name = Some ''dot'', g_description = None, g_geometry = Some (Point 0 0),
      g_area = None, g_properties = None, g_is_active = None\<rparr>"

text \<open>
  A polygon payload that passes validation and cannot be projected: a square between
  latitudes 99 and 100.
\<close>

definition polar_data :: polygon_data where
  "polar_data =
     \<lparr>g_name = Some ''beyond the pole'', g_description = None,
      g_geometry = Some (Polygon [[(0, 99), (0, 100), (1, 100), (1, 99), (0, 99)]]),
      g_area = None, g_properties = None, g_is_active = None\<rparr>"

text \<open>
  Three stored points: two active ones, far apart, and an inactive one next to the
  first.
\<close>

definition near_nyc_data :: point_data where
  "near_nyc_data = point_payload ''near nyc'' (Point (- 73) (40 + 1 / 1000))"

definition three_points_db :: db where
  "three_points_db =
     \<lparr>points = [new_point 5 0 nyc_data, new_point 6 1 harbour_data,
                (new_point 7 2 near_nyc_data)\<lparr>pt_is_active := False\<rparr>],
      polygons = [], next_id = 3\<rparr>"

text \<open>The payloads of a PATCH that only sets \<open>is_active\<close> to false.\<close>

definition deactivate_point :: point_data where
  "deactivate_point =
     \<lparr>d_name = None, d_description = None, d_location = None, d_properties = None,
      d_is_active = Some False\<rparr>"

definition deactivate_polygon :: polygon_data where
  "deactivate_polygon =
     \<lparr>g_name = None, g_description = None, g_geometry = None, g_area = None,
      g_properties = None, g_is_active = Some False\<rparr>"

text \<open>A stored polygon of 2 degrees by 2 degrees, alone in its table.\<close>

definition block_data :: polygon_data where
  "block_data =
     \<lparr>g_name = Some ''block'', g_description = None,
      g_geometry = Some (Polygon [[(0, 0), (0, 2), (2, 2), (2, 0), (0, 0)]]),
      g_area = None, g_properties = None, g_is_active = None\<rparr>"

definition block :: polygon_entity where
  "block = (new_polygon 4 0 block_data)\<lparr>pg_area := Some 40000000000\<rparr>"

definition one_polygon_db :: db where
  "one_polygon_db = \<lparr>points = [], polygons = [block], next_id = 1\<rparr>"

text \<open>
  Three stored polygons beside the three points: two active ones, of 100 m by 100 m and
  of 100 m by 50 m on the reference platform, and an inactive one of 40 m by 20 m.
\<close>

definition rectangle :: "real \<Rightarrow> real \<Rightarrow> geos_geometry" where
  "rectangle w h = Polygon [[(0, 0), (0, h), (w, h), (w, 0), (0, 0)]]"

definition stored_polygon ::
  "nat \<Rightarrow> nat \<Rightarrow> string \<Rightarrow> geos_geometry \<Rightarrow> real \<Rightarrow> bool \<Rightarrow> polygon_entity" where
  "stored_polygon uuid now n g a active =
     \<lparr>pg_id = uuid, pg_name = n, pg_description = None, pg_geometry = Some g,
      pg_area = Some a, pg_properties = [], pg_created_at = now, pg_updated_at = now,
      pg_is_active = active\<rparr>"

definition park :: polygon_entity where
  "park = stored_polygon 10 5 ''Park'' (rectangle (1 / 1000) (1 / 1000)) 10000 True"

definition parking_lot :: polygon_entity where
  "parking_lot = stored_polygon 11 6 ''parking lot'' (rectangle (1 / 1000) (1 / 2000)) 5000 True"

definition lake :: polygon_entity where
  "lake = stored_polygon 12 7 ''Lake'' (rectangle (1 / 2500) (1 / 5000)) 800 False"

definition parks_db :: db where
  "parks_db =
     \<lparr>points = points three_points_db, polygons = [park, parking_lot, lake], next_id = 13\<rparr>"

section \<open>Properties of the stored rows\<close>

text \<open>
  The sum of a list of floats, added from the left; the sum of no float is 0.
\<close>

definition float_sum :: "real list \<Rightarrow> real" where
  "float_sum xs = (case xs of [] \<Rightarrow> 0 | x # ys \<Rightarrow> foldl fadd x ys)"

text \<open>
  The items of a well-formed bulk envelope: \<open>request.data\<close> is a dictionary that has the
  key, and the value under the key is a list.
\<close>

definition envelope_items :: "string \<Rightarrow> 'i request_data \<Rightarrow> 'i item list option" where
  "envelope_items key data =
     (case data of
        JDict kvs \<Rightarrow> (case map_of kvs key of Some (JList items) \<Rightarrow> Some items | _ \<Rightarrow> None)
      | _ \<Rightarrow> None)"

text \<open>
  An item of a batch passes validation when it is an object whose fields have no error.
  A polygon item cannot be projected when it is an object whose geometry the
  transformation to SRID 3857 fails on.
\<close>

definition passes_validation :: "('i \<Rightarrow> errors) \<Rightarrow> 'i item \<Rightarrow> bool" where
  "passes_validation errs_of item = (case item of Object x \<Rightarrow> errs_of x = [] | _ \<Rightarrow> False)"

definition unprojectable :: "platform \<Rightarrow> polygon_data item \<Rightarrow> bool" where
  "unprojectable lib item =
     (case item of
        Object x \<Rightarrow>
          (case g_geometry x of
             Some g \<Rightarrow> geos_transform lib 3857 g = None
           | None \<Rightarrow> False)
      | _ \<Rightarrow> False)"

text \<open>
  The filters of the list views, as the query parameters state them: a name that
  contains the \<open>name\<close> parameter, letter case aside; an \<open>is_active\<close> flag equal to the
  parameter read as a boolean; an area within the inclusive bounds \<open>min_area\<close> and
  \<open>max_area\<close>, a bound that is empty or not a number being no bound.
\<close>

definition name_matches :: "query \<Rightarrow> string \<Rightarrow> bool" where
  "name_matches q s = (case map_of q ''name'' of Some n \<Rightarrow> icontains n s | None \<Rightarrow> True)"

definition active_matches :: "query \<Rightarrow> bool \<Rightarrow> bool" where
  "active_matches q b =
     (case map_of q ''is_active'' of Some v \<Rightarrow> b = (lower v = ''true'') | None \<Rightarrow> True)"

definition bound_of :: "platform \<Rightarrow> query \<Rightarrow> string \<Rightarrow> real option" where
  "bound_of lib q key =
     (case map_of q key of Some s \<Rightarrow> if s = [] then None else py_float lib s | None \<Rightarrow> None)"

definition min_ok :: "platform \<Rightarrow> query \<Rightarrow> real option \<Rightarrow> bool" where
  "min_ok lib q area =
     (case bound_of lib q ''min_area'' of
        Some lo \<Rightarrow> (case area of Some a \<Rightarrow> lo \<le> a | None \<Rightarrow> False)
      | None \<Rightarrow> True)"

definition max_ok :: "platform \<Rightarrow> query \<Rightarrow> real option \<Rightarrow> bool" where
  "max_ok lib q area =
     (case bound_of lib q ''max_area'' of
        Some hi \<Rightarrow> (case area of Some a \<Rightarrow> a \<le> hi | None \<Rightarrow> False)
      | None \<Rightarrow> True)"

definition area_in_bounds :: "platform \<Rightarrow> query \<Rightarrow> real option \<Rightarrow> bool" where
  "area_in_bounds lib q area = (min_ok lib q area \<and> max_ok lib q area)"

text \<open>A primary key drawn by \<open>uuid.uuid4\<close> is not the key of a stored row.\<close>

definition ids_fresh :: "db \<Rightarrow> bool" where
  "ids_fresh d =
     ((\<forall>e\<in>set (points d). pt_id e < next_id d) \<and> (\<forall>e\<in>set (polygons d). pg_id e < next_id d))"


text \<open>
  The stored area of a polygon row is the area of its stored geometry transformed to
  SRID 3857.
\<close>

definition area_consistent :: "platform \<Rightarrow> polygon_entity \<Rightarrow> bool" where
  "area_consistent lib e =
     (case pg_geometry e of
        Some g \<Rightarrow>
          (case geos_transform lib 3857 g of
             Some t \<Rightarrow> pg_area e = Some (geos_area lib t)
           | None \<Rightarrow> False)
      | None \<Rightarrow> False)"

text \<open>What the two validators let through.\<close>

definition point_ok :: "point_entity \<Rightarrow> bool" where
  "point_ok e =
     (case pt_location e of
        Some (Point x y) \<Rightarrow> - 90 \<le> y \<and> y \<le> 90 \<and> - 180 \<le> x \<and> x \<le> 180
      | _ \<Rightarrow> False)"

definition polygon_ok :: "platform \<Rightarrow> polygon_entity \<Rightarrow> bool" where
  "polygon_ok lib e =
     (case pg_geometry e of
        Some (Polygon rings) \<Rightarrow>
          geos_valid lib (Polygon rings) \<and> 1 / 10 ^ 10 \<le> geos_area lib (Polygon rings)
      | _ \<Rightarrow> False)"
section \<open>Proofs\<close>

subsection \<open>Writes and the bulk loop\<close>

lemma set_write_polygon: "set (write_polygon s rows) \<subseteq> insert s (set rows)"
  by (auto simp: write_polygon_def)

lemma self_in_write_polygon: "s \<in> set (write_polygon s rows)"
  by (auto simp: write_polygon_def)

lemma write_polygon_Nil: "write_polygon s [] = [s]"
  by (simp add: write_polygon_def)

lemma write_point_Nil: "write_point s [] = [s]"
  by (simp add: write_point_def)

lemma set_write_point: "set (write_point s rows) \<subseteq> insert s (set rows)"
  by (auto simp: write_point_def)

lemma self_in_write_point: "s \<in> set (write_point s rows)"
  by (auto simp: write_point_def)

lemma save_area_Inr:
  assumes "save_area lib self = Inr self'"
  shows "pg_geometry self' = pg_geometry self"
    and "pg_id self' = pg_id self"
    and "pg_is_active self' = pg_is_active self"
    and "pg_created_at self' = pg_created_at self"
    and "pg_name self' = pg_name self"
  using assms by (auto simp: save_area_def split: option.splits)

lemma save_Inr:
  assumes "save lib self d = Inr (self', d')"
  shows "save_area lib self = Inr self'" and "pg_geometry self' \<noteq> None"
    and "d' = d\<lparr>polygons := write_polygon self' (polygons d)\<rparr>"
  using assms by (auto simp: save_def split: option.splits sum.splits)

lemma save_point_Inr:
  assumes "save_point self d = Inr (self', d')"
  shows "self' = self" and "pt_location self \<noteq> None"
    and "d' = d\<lparr>points := write_point self (points d)\<rparr>"
  using assms by (auto simp: save_point_def split: option.splits)

lemma is_valid_Inl: "is_valid errs_of item = Inl e \<longleftrightarrow> item = Scalar \<and> e = TypeError"
  by (auto simp: is_valid_def split: item.splits)

lemma is_valid_valid:
  "is_valid errs_of item = Inr (Inr data) \<longleftrightarrow> item = Object data \<and> errs_of data = []"
  by (auto simp: is_valid_def split: item.splits)

lemma is_valid_Object:
  "is_valid errs_of (Object data) =
     (if errs_of data = [] then Inr (Inr data) else Inr (Inl (errs_of data)))"
  by (simp add: is_valid_def)

lemma is_valid_Scalar: "is_valid errs_of Scalar = Inl TypeError"
  by (simp add: is_valid_def)

lemma bulk_loop_inv:
  assumes step: "\<And>data d obj d'. Q d \<Longrightarrow> errs_of data = [] \<Longrightarrow> create data d = Inr (obj, d') \<Longrightarrow> Q d'"
    and init: "Q d"
  shows "case bulk_loop errs_of create i items created errors d of
           Inl (e, d') \<Rightarrow> Q d' | Inr (c, es, d') \<Rightarrow> Q d'"
  using init
proof (induction items arbitrary: i created errors d)
  case Nil
  then show ?case by simp
next
  case (Cons item items)
  show ?case
  proof (cases "is_valid errs_of item")
    case (Inl e)
    with Cons.prems show ?thesis by simp
  next
    case (Inr v)
    show ?thesis
    proof (cases v)
      case (Inl errs)
      with Inr Cons.IH[OF Cons.prems] show ?thesis by simp
    next
      case validated: (Inr data)
      have ok: "errs_of data = []"
        using Inr validated by (simp add: is_valid_valid)
      show ?thesis
      proof (cases "create data d")
        case (Inl e)
        with Inr validated Cons.prems show ?thesis by simp
      next
        case created: (Inr r)
        obtain obj d' where r: "r = (obj, d')" by (cases r)
        have "Q d'" using step[OF Cons.prems ok] created r by simp
        from Cons.IH[OF this] Inr validated created r show ?thesis by simp
      qed
    qed
  qed
qed

lemma bulk_loop_inv_Inl:
  assumes "\<And>data d obj d'. Q d \<Longrightarrow> errs_of data = [] \<Longrightarrow> create data d = Inr (obj, d') \<Longrightarrow> Q d'"
    and "Q d" and "bulk_loop errs_of create i items created errors d = Inl (e, d')"
  shows "Q d'"
  using bulk_loop_inv[of Q errs_of create d i items created errors, OF assms(1,2)] assms(3)
  by simp

lemma bulk_loop_inv_Inr:
  assumes "\<And>data d obj d'. Q d \<Longrightarrow> errs_of data = [] \<Longrightarrow> create data d = Inr (obj, d') \<Longrightarrow> Q d'"
    and "Q d" and "bulk_loop errs_of create i items created errors d = Inr (c, es, d')"
  shows "Q d'"
  using bulk_loop_inv[of Q errs_of create d i items created errors, OF assms(1,2)] assms(3)
  by simp

lemma create_polygon_Inr:
  assumes "create_polygon lib now data d = Inr (obj, d')"
  shows "save_area lib (new_polygon now (next_id d) data) = Inr obj"
    and "pg_geometry obj \<noteq> None"
    and "set (polygons d') \<subseteq> insert obj (set (polygons d))"
    and "obj \<in> set (polygons d')"
    and "points d' = points d"
  using save_Inr[OF assms[unfolded create_polygon_def]] set_write_polygon[of obj "polygons d"]
    self_in_write_polygon[of obj "polygons d"]
  by auto

lemma update_polygon_Inr:
  assumes "update_polygon lib now inst data d = Inr (obj, d')"
  shows "save_area lib (set_polygon now data inst) = Inr obj"
    and "pg_geometry obj \<noteq> None"
    and "set (polygons d') \<subseteq> insert obj (set (polygons d))"
    and "obj \<in> set (polygons d')"
    and "points d' = points d"
  using save_Inr[OF assms[unfolded update_polygon_def]] set_write_polygon[of obj "polygons d"]
    self_in_write_polygon[of obj "polygons d"]
  by auto

lemma create_point_Inr:
  assumes "create_point now data d = Inr (obj, d')"
  shows "obj = new_point now (next_id d) data"
    and "pt_location obj \<noteq> None"
    and "set (points d') \<subseteq> insert obj (set (points d))"
    and "obj \<in> set (points d')"
    and "polygons d' = polygons d"
  using save_point_Inr[OF assms[unfolded create_point_def]] set_write_point[of obj "points d"]
    self_in_write_point[of obj "points d"]
  by auto

lemma update_point_Inr:
  assumes "update_point now inst data d = Inr (obj, d')"
  shows "obj = set_point now data inst"
    and "pt_location obj \<noteq> None"
    and "set (points d') \<subseteq> insert obj (set (points d))"
    and "obj \<in> set (points d')"
    and "polygons d' = polygons d"
  using save_point_Inr[OF assms[unfolded update_point_def]] set_write_point[of obj "points d"]
    self_in_write_point[of obj "points d"]
  by auto

lemma find_SomeD: "find P xs = Some x \<Longrightarrow> x \<in> set xs \<and> P x"
  by (auto simp: find_Some_iff)

lemma polygons_bulk_inv:
  assumes A: "\<And>now uuid data obj. polygon_errors lib False data = [] \<Longrightarrow>
                save_area lib (new_polygon now uuid data) = Inr obj \<Longrightarrow>
                pg_geometry obj \<noteq> None \<Longrightarrow> P obj"
    and inv: "\<forall>e\<in>set (polygons d). P e"
  shows "\<forall>e\<in>set (polygons (snd (spatial_polygons_bulk_create lib now data d))). P e"
proof -
  let ?Q = "\<lambda>d. \<forall>e\<in>set (polygons d). P e"
  have step: "?Q d1"
    if q: "?Q d0" and ok: "polygon_errors lib False item = []"
      and c: "create_polygon lib now item d0 = Inr (obj, d1)" for item d0 obj d1
  proof -
    from create_polygon_Inr(1,2)[OF c] A[OF ok] have "P obj" by blast
    with create_polygon_Inr(3)[OF c] q show ?thesis by auto
  qed
  have l: "?Q d'"
    if "bulk_loop (polygon_errors lib False) (create_polygon lib now) 0 items [] [] d = Inl (e, d')"
    for items e d'
    by (rule bulk_loop_inv_Inl[where Q = ?Q, OF _ inv that]) (rule step)
  have r: "?Q d'"
    if "bulk_loop (polygon_errors lib False) (create_polygon lib now) 0 items [] [] d = Inr (c, es, d')"
    for items c es d'
    by (rule bulk_loop_inv_Inr[where Q = ?Q, OF _ inv that]) (rule step)
  show ?thesis
    using inv l r
    by (auto simp: spatial_polygons_bulk_create_def
        split: request_data.splits option.splits sum.splits prod.splits)
qed

lemma points_bulk_polygons:
  "polygons (snd (spatial_points_bulk_create now data d)) = polygons d"
proof -
  let ?Q = "\<lambda>d'. polygons d' = polygons d"
  have step: "?Q d1"
    if "?Q d0" "point_errors False item = []"
      "create_point now item d0 = Inr (obj, d1)" for item d0 obj d1
    using that create_point_Inr(5) by metis
  have l: "?Q d'"
    if "bulk_loop (point_errors False) (create_point now) 0 items [] [] d = Inl (e, d')"
    for items e d'
    by (rule bulk_loop_inv_Inl[where Q = ?Q, OF _ refl that]) (rule step)
  have r: "?Q d'"
    if "bulk_loop (point_errors False) (create_point now) 0 items [] [] d = Inr (c, es, d')"
    for items c es d'
    by (rule bulk_loop_inv_Inr[where Q = ?Q, OF _ refl that]) (rule step)
  show ?thesis
    using l r
    by (auto simp: spatial_points_bulk_create_def
        split: request_data.splits option.splits sum.splits prod.splits)
qed

text \<open>
  What a POST of one object and a PUT or PATCH of one object do to the tables, by the
  outcome of \<open>is_valid\<close> and of \<open>save\<close>.
\<close>

lemma polygons_post_cases:
  obtains (unchanged) "snd (spatial_polygons_list_create lib now m q item d) = d"
  | (created) data obj d' where "m = POST" "item = Object data"
      "polygon_errors lib False data = []"
      "create_polygon lib now data d = Inr (obj, d')"
      "spatial_polygons_list_create lib now m q item d = (Response 201 (Entity obj), d')"
proof (cases "m = POST")
  case False
  then have "snd (spatial_polygons_list_create lib now m q item d) = d"
    by (cases m) (auto simp: spatial_polygons_list_create_def Let_def split: page_result.splits)
  then show ?thesis by (rule unchanged)
next
  case True
  show ?thesis
  proof (cases "is_valid (polygon_errors lib False) item")
    case (Inl e)
    with True have "snd (spatial_polygons_list_create lib now m q item d) = d"
      by (simp add: spatial_polygons_list_create_def)
    then show ?thesis by (rule unchanged)
  next
    case (Inr v)
    show ?thesis
    proof (cases v)
      case (Inl errs)
      with Inr True have "snd (spatial_polygons_list_create lib now m q item d) = d"
        by (simp add: spatial_polygons_list_create_def)
      then show ?thesis by (rule unchanged)
    next
      case validated: (Inr data)
      have item: "item = Object data" "polygon_errors lib False data = []"
        using Inr validated by (simp_all add: is_valid_valid)
      show ?thesis
      proof (cases "create_polygon lib now data d")
        case (Inl e)
        with Inr validated True
        have "snd (spatial_polygons_list_create lib now m q item d) = d"
          by (simp add: spatial_polygons_list_create_def)
        then show ?thesis by (rule unchanged)
      next
        case saved: (Inr r)
        obtain obj d' where r: "r = (obj, d')" by (cases r)
        have "spatial_polygons_list_create lib now m q item d = (Response 201 (Entity obj), d')"
          using Inr validated True saved r by (simp add: spatial_polygons_list_create_def)
        with True item saved r show ?thesis by (auto intro: created)
      qed
    qed
  qed
qed

lemma points_post_cases:
  obtains (unchanged) "snd (spatial_points_list_create lib now m q item d) = d"
  | (created) data obj d' where "m = POST" "item = Object data"
      "point_errors False data = []"
      "create_point now data d = Inr (obj, d')"
      "spatial_points_list_create lib now m q item d = (Response 201 (Entity obj), d')"
proof (cases "m = POST")
  case False
  then have "snd (spatial_points_list_create lib now m q item d) = d"
    by (cases m) (auto simp: spatial_points_list_create_def Let_def split: page_result.splits)
  then show ?thesis by (rule unchanged)
next
  case True
  show ?thesis
  proof (cases "is_valid (point_errors False) item")
    case (Inl e)
    with True have "snd (spatial_points_list_create lib now m q item d) = d"
      by (simp add: spatial_points_list_create_def)
    then show ?thesis by (rule unchanged)
  next
    case (Inr v)
    show ?thesis
    proof (cases v)
      case (Inl errs)
      with Inr True have "snd (spatial_points_list_create lib now m q item d) = d"
        by (simp add: spatial_points_list_create_def)
      then show ?thesis by (rule unchanged)
    next
      case validated: (Inr data)
      have item: "item = Object data" "point_errors False data = []"
        using Inr validated by (simp_all add: is_valid_valid)
      show ?thesis
      proof (cases "create_point now data d")
        case (Inl e)
        with Inr validated True
        have "snd (spatial_points_list_create lib now m q item d) = d"
          by (simp add: spatial_points_list_create_def)
        then show ?thesis by (rule unchanged)
      next
        case saved: (Inr r)
        obtain obj d' where r: "r = (obj, d')" by (cases r)
        have "spatial_points_list_create lib now m q item d = (Response 201 (Entity obj), d')"
          using Inr validated True saved r by (simp add: spatial_points_list_create_def)
        with True item saved r show ?thesis by (auto intro: created)
      qed
    qed
  qed
qed

lemma polygon_detail_cases:
  obtains (unchanged) "snd (spatial_polygon_detail lib now m i item d) = d"
  | (deleted) "m = DELETE"
      "snd (spatial_polygon_detail lib now m i item d) =
         d\<lparr>polygons := filter (\<lambda>e. pg_id e \<noteq> i) (polygons d)\<rparr>"
  | (updated) old data obj d' where "m = PUT \<or> m = PATCH" "item = Object data"
      "find (\<lambda>e. pg_id e = i) (polygons d) = Some old"
      "polygon_errors lib (m = PATCH) data = []"
      "update_polygon lib now old data d = Inr (obj, d')"
      "spatial_polygon_detail lib now m i item d = (Response 200 (Entity obj), d')"
proof (cases "find (\<lambda>e. pg_id e = i) (polygons d)")
  case None
  then have "snd (spatial_polygon_detail lib now m i item d) = d"
    by (simp add: spatial_polygon_detail_def)
  then show ?thesis by (rule unchanged)
next
  case (Some old)
  consider (get) "m = GET \<or> m = POST" | (del) "m = DELETE" | (upd) "m = PUT \<or> m = PATCH"
    by (cases m) auto
  then show ?thesis
  proof cases
    case get
    with Some have "snd (spatial_polygon_detail lib now m i item d) = d"
      by (auto simp: spatial_polygon_detail_def)
    then show ?thesis by (rule unchanged)
  next
    case del
    with Some have "snd (spatial_polygon_detail lib now m i item d) =
         d\<lparr>polygons := filter (\<lambda>e. pg_id e \<noteq> i) (polygons d)\<rparr>"
      by (simp add: spatial_polygon_detail_def)
    with del show ?thesis by (rule deleted)
  next
    case upd
    then have m: "m \<noteq> POST" "m \<noteq> GET" by auto
    show ?thesis
    proof (cases "is_valid (polygon_errors lib (m = PATCH)) item")
      case (Inl e)
      with Some upd m have "snd (spatial_polygon_detail lib now m i item d) = d"
        by (simp add: spatial_polygon_detail_def)
      then show ?thesis by (rule unchanged)
    next
      case (Inr v)
      show ?thesis
      proof (cases v)
        case (Inl errs)
        with Inr Some upd m have "snd (spatial_polygon_detail lib now m i item d) = d"
          by (simp add: spatial_polygon_detail_def)
        then show ?thesis by (rule unchanged)
      next
        case validated: (Inr data)
        have item: "item = Object data" "polygon_errors lib (m = PATCH) data = []"
          using Inr validated by (simp_all add: is_valid_valid)
        show ?thesis
        proof (cases "update_polygon lib now old data d")
          case (Inl e)
          with Inr validated Some upd m
          have "snd (spatial_polygon_detail lib now m i item d) = d"
            by (simp add: spatial_polygon_detail_def)
          then show ?thesis by (rule unchanged)
        next
          case saved: (Inr r)
          obtain obj d' where r: "r = (obj, d')" by (cases r)
          have "spatial_polygon_detail lib now m i item d = (Response 200 (Entity obj), d')"
            using Inr validated Some upd m saved r by (simp add: spatial_polygon_detail_def)
          with upd item Some saved r show ?thesis by (auto intro: updated)
        qed
      qed
    qed
  qed
qed

lemma point_detail_cases:
  obtains (unchanged) "snd (spatial_point_detail now m i item d) = d"
  | (deleted) "m = DELETE"
      "snd (spatial_point_detail now m i item d) =
         d\<lparr>points := filter (\<lambda>e. pt_id e \<noteq> i) (points d)\<rparr>"
  | (updated) old data obj d' where "m = PUT \<or> m = PATCH" "item = Object data"
      "find (\<lambda>e. pt_id e = i) (points d) = Some old"
      "point_errors (m = PATCH) data = []"
      "update_point now old data d = Inr (obj, d')"
      "spatial_point_detail now m i item d = (Response 200 (Entity obj), d')"
proof (cases "find (\<lambda>e. pt_id e = i) (points d)")
  case None
  then have "snd (spatial_point_detail now m i item d) = d"
    by (simp add: spatial_point_detail_def)
  then show ?thesis by (rule unchanged)
next
  case (Some old)
  consider (get) "m = GET \<or> m = POST" | (del) "m = DELETE" | (upd) "m = PUT \<or> m = PATCH"
    by (cases m) auto
  then show ?thesis
  proof cases
    case get
    with Some have "snd (spatial_point_detail now m i item d) = d"
      by (auto simp: spatial_point_detail_def)
    then show ?thesis by (rule unchanged)
  next
    case del
    with Some have "snd (spatial_point_detail now m i item d) =
         d\<lparr>points := filter (\<lambda>e. pt_id e \<noteq> i) (points d)\<rparr>"
      by (simp add: spatial_point_detail_def)
    with del show ?thesis by (rule deleted)
  next
    case upd
    then have m: "m \<noteq> POST" "m \<noteq> GET" by auto
    show ?thesis
    proof (cases "is_valid (point_errors (m = PATCH)) item")
      case (Inl e)
      with Some upd m have "snd (spatial_point_detail now m i item d) = d"
        by (simp add: spatial_point_detail_def)
      then show ?thesis by (rule unchanged)
    next
      case (Inr v)
      show ?thesis
      proof (cases v)
        case (Inl errs)
        with Inr Some upd m have "snd (spatial_point_detail now m i item d) = d"
          by (simp add: spatial_point_detail_def)
        then show ?thesis by (rule unchanged)
      next
        case validated: (Inr data)
        have item: "item = Object data" "point_errors (m = PATCH) data = []"
          using Inr validated by (simp_all add: is_valid_valid)
        show ?thesis
        proof (cases "update_point now old data d")
          case (Inl e)
          with Inr validated Some upd m
          have "snd (spatial_point_detail now m i item d) = d"
            by (simp add: spatial_point_detail_def)
          then show ?thesis by (rule unchanged)
        next
          case saved: (Inr r)
          obtain obj d' where r: "r = (obj, d')" by (cases r)
          have "spatial_point_detail now m i item d = (Response 200 (Entity obj), d')"
            using Inr validated Some upd m saved r by (simp add: spatial_point_detail_def)
          with upd item Some saved r show ?thesis by (auto intro: updated)
        qed
      qed
    qed
  qed
qed

lemma handle_polygons_inv:
  assumes A: "\<And>now uuid data obj. polygon_errors lib False data = [] \<Longrightarrow>
                save_area lib (new_polygon now uuid data) = Inr obj \<Longrightarrow>
                pg_geometry obj \<noteq> None \<Longrightarrow> P obj"
    and B: "\<And>now data old partial obj. P old \<Longrightarrow> polygon_errors lib partial data = [] \<Longrightarrow>
                save_area lib (set_polygon now data old) = Inr obj \<Longrightarrow>
                pg_geometry obj \<noteq> None \<Longrightarrow> P obj"
    and inv: "\<forall>e\<in>set (polygons d). P e"
  shows "\<forall>e\<in>set (polygons (handle lib now r d)). P e"
proof (cases r)
  case (PointsListCreate m q item)
  have "polygons (snd (spatial_points_list_create lib now m q item d)) = polygons d"
    by (cases rule: points_post_cases[of lib now m q item d])
      (auto dest: create_point_Inr(5))
  with inv PointsListCreate show ?thesis by simp
next
  case (PointDetail m i item)
  have "polygons (snd (spatial_point_detail now m i item d)) = polygons d"
    by (cases rule: point_detail_cases[of now m i item d])
      (auto dest: update_point_Inr(5))
  with inv PointDetail show ?thesis by simp
next
  case (PointsBulk data)
  with inv points_bulk_polygons show ?thesis by simp
next
  case (PolygonsListCreate m q item)
  show ?thesis
  proof (cases rule: polygons_post_cases[of lib now m q item d])
    case unchanged
    with inv PolygonsListCreate show ?thesis by simp
  next
    case (created data obj d')
    from create_polygon_Inr(1,2)[OF created(4)] A[OF created(3)] have "P obj" by blast
    with create_polygon_Inr(3)[OF created(4)] inv have "\<forall>e\<in>set (polygons d'). P e" by auto
    with created(5) PolygonsListCreate show ?thesis by simp
  qed
next
  case (PolygonDetail m i item)
  show ?thesis
  proof (cases rule: polygon_detail_cases[of lib now m i item d])
    case unchanged
    with inv PolygonDetail show ?thesis by simp
  next
    case deleted
    with inv PolygonDetail show ?thesis by simp
  next
    case (updated old data obj d')
    have old: "P old" using inv find_SomeD[OF updated(3)] by blast
    from update_polygon_Inr(1,2)[OF updated(5)] B[OF old updated(4)] have "P obj" by blast
    with update_polygon_Inr(3)[OF updated(5)] inv have "\<forall>e\<in>set (polygons d'). P e" by auto
    with updated(6) PolygonDetail show ?thesis by simp
  qed
next
  case (PolygonsBulk data)
  with polygons_bulk_inv[of lib P d now data, OF A inv] show ?thesis by simp
qed

subsection \<open>The stored area\<close>

lemma save_area_consistent:
  "save_area lib self = Inr self' \<Longrightarrow> pg_geometry self' \<noteq> None \<Longrightarrow> area_consistent lib self'"
  by (auto simp: save_area_def area_consistent_def split: option.splits)

lemma run_polygons_inv:
  assumes A: "\<And>now uuid data obj. polygon_errors lib False data = [] \<Longrightarrow>
                save_area lib (new_polygon now uuid data) = Inr obj \<Longrightarrow>
                pg_geometry obj \<noteq> None \<Longrightarrow> P obj"
    and B: "\<And>now data old partial obj. P old \<Longrightarrow> polygon_errors lib partial data = [] \<Longrightarrow>
                save_area lib (set_polygon now data old) = Inr obj \<Longrightarrow>
                pg_geometry obj \<noteq> None \<Longrightarrow> P obj"
    and inv: "\<forall>e\<in>set (polygons d). P e"
  shows "\<forall>e\<in>set (polygons (run lib rs d)). P e"
  using inv
proof (induction rs arbitrary: d)
  case Nil
  then show ?case by simp
next
  case (Cons a rs)
  obtain now r where a: "a = (now, r)" by (cases a)
  have "\<forall>e\<in>set (polygons (handle lib now r d)). P e"
    by (rule handle_polygons_inv[of lib P, OF A B Cons.prems])
  from Cons.IH[OF this] a show ?case by simp
qed

text \<open>
  C1. Every successful save of a polygon stores the instance with its geometry unchanged
  and with \<open>area\<close> equal to the planar area of that geometry transformed from WGS84 to
  SRID 3857 (Web Mercator), whatever area the instance carried before. Hence, over any
  run of requests, every polygon row keeps its area consistent with its stored geometry:
  the area is the one the geometry library computes for the transformed geometry, never
  one of the untransformed geometry, and it is non-negative whenever that one is.
\<close>

theorem stored_area_is_projected_area:
  "(save lib self d = Inr (self', d') \<longrightarrow>
      self' \<in> set (polygons d') \<and> pg_geometry self' = pg_geometry self \<and>
      area_consistent lib self') \<and>
   ((\<forall>e\<in>set (polygons d). area_consistent lib e) \<longrightarrow>
      (\<forall>e\<in>set (polygons (run lib rs d)). area_consistent lib e)) \<and>
   (area_consistent lib e \<longrightarrow>
      (\<exists>g t a. pg_geometry e = Some g \<and> geos_transform lib 3857 g = Some t \<and>
         pg_area e = Some a \<and> a = geos_area lib t \<and>
         (0 \<le> geos_area lib t \<longrightarrow> 0 \<le> a)))"
proof (intro conjI impI)
  assume s: "save lib self d = Inr (self', d')"
  from save_Inr[OF s] show "self' \<in> set (polygons d')"
    by (simp add: self_in_write_polygon)
  from save_Inr[OF s] show "pg_geometry self' = pg_geometry self"
    by (simp add: save_area_Inr)
  from save_Inr[OF s] show "area_consistent lib self'"
    using save_area_consistent by blast
next
  assume inv: "\<forall>e\<in>set (polygons d). area_consistent lib e"
  show "\<forall>e\<in>set (polygons (run lib rs d)). area_consistent lib e"
    by (rule run_polygons_inv[of lib "area_consistent lib", OF _ _ inv])
      (simp_all add: save_area_consistent)
next
  assume "area_consistent lib e"
  then show "\<exists>g t a. pg_geometry e = Some g \<and> geos_transform lib 3857 g = Some t \<and>
         pg_area e = Some a \<and> a = geos_area lib t \<and>
         (0 \<le> geos_area lib t \<longrightarrow> 0 \<le> a)"
    by (auto simp: area_consistent_def split: option.splits)
qed

lemma planar_area_nonneg: "0 \<le> planar_area g"
  by (simp add: planar_area_def split: geos_geometry.splits list.splits)

lemma square_saved:
  "save_area reference_platform (new_polygon 8 0 square_data) = Inr square"
  by (simp add: square_def square_data_def reference_platform_def planar_area_def ring_area_def
      save_area_def new_polygon_def or_default_def planar_transform_def latitudes_def
      scale_def)

lemma save_square:
  "save reference_platform (new_polygon 8 0 square_data) empty_db =
     Inr (square, empty_db\<lparr>polygons := [square]\<rparr>)"
  by (simp add: save_def square_saved write_polygon_Nil empty_db_def)
    (simp add: square_def new_polygon_def square_data_def write_polygon_Nil)

lemma run_square:
  "polygons (run reference_platform [(8, PolygonsListCreate POST [] (Object square_data))] empty_db) =
     [square]"
proof -
  have v: "polygon_errors reference_platform False square_data = []"
    by (simp add: polygon_errors_def name_errors_def field_errors_def validate_geometry_def
        square_data_def reference_platform_def planar_valid_def closed_ring_def
        planar_area_def ring_area_def)
  have n: "next_id empty_db = 0"
    by (simp add: empty_db_def)
  have c: "create_polygon reference_platform 8 square_data empty_db =
      Inr (square, empty_db\<lparr>polygons := [square], next_id := Suc 0\<rparr>)"
    by (simp add: create_polygon_def n save_def square_saved write_polygon_Nil empty_db_def)
      (simp add: square_def new_polygon_def square_data_def write_polygon_Nil)
  show ?thesis
    by (simp add: spatial_polygons_list_create_def is_valid_Object v c)
qed

theorem stored_area_is_projected_area_witness:
  "polygons empty_db = [] \<and>
   save reference_platform (new_polygon 8 0 square_data) empty_db =
     Inr (square, empty_db\<lparr>polygons := [square]\<rparr>) \<and>
   g_area square_data = Some 5 \<and>
   pg_area square = Some 1000000 \<and>
   pg_geometry square = g_geometry square_data \<and>
   area_consistent reference_platform square \<and>
   polygons (run reference_platform [(8, PolygonsListCreate POST [] (Object square_data))] empty_db) =
     [square] \<and>
   list_all (area_consistent reference_platform)
     (polygons (run reference_platform [(8, PolygonsListCreate POST [] (Object square_data))] empty_db)) \<and>
   (\<exists>g t a. pg_geometry square = Some g \<and> geos_transform reference_platform 3857 g = Some t \<and>
      pg_area square = Some a \<and> a = geos_area reference_platform t \<and> 0 \<le> a)"
proof -
  let ?rs = "[(8, PolygonsListCreate POST [] (Object square_data))]"
  note t = stored_area_is_projected_area[where lib = reference_platform and d = empty_db]
  have e: "polygons empty_db = []"
    by (simp add: empty_db_def)
  have h: "\<forall>e\<in>set (polygons empty_db). area_consistent reference_platform e"
    by (simp add: e)
  have c: "area_consistent reference_platform square"
    using mp[OF t[THEN conjunct1] save_square] by blast
  have "\<forall>e\<in>set (polygons (run reference_platform ?rs empty_db)).
          area_consistent reference_platform e"
    by (rule mp[OF t[where rs = ?rs, THEN conjunct2, THEN conjunct1] h])
  then have l: "list_all (area_consistent reference_platform)
     (polygons (run reference_platform ?rs empty_db))"
    by (simp only: list_all_iff)
  have n: "0 \<le> geos_area reference_platform g" for g
    by (simp add: reference_platform_def planar_area_nonneg)
  from mp[OF t[where e = square, THEN conjunct2, THEN conjunct2] c] n
  have x: "\<exists>g t a. pg_geometry square = Some g \<and> geos_transform reference_platform 3857 g = Some t \<and>
      pg_area square = Some a \<and> a = geos_area reference_platform t \<and> 0 \<le> a"
    by blast
  have a: "pg_area square = Some 1000000"
    by (simp add: square_def)
  have g: "pg_geometry square = g_geometry square_data"
    by (simp add: square_def new_polygon_def)
  have u: "g_area square_data = Some 5"
    by (simp add: square_data_def)
  show ?thesis
    by (intro conjI e save_square u a g c run_square l x)
qed

subsection \<open>Validation before persistence\<close>

lemma polygons_bulk_points:
  "points (snd (spatial_polygons_bulk_create lib now data d)) = points d"
proof -
  let ?Q = "\<lambda>d'. points d' = points d"
  have step: "?Q d1"
    if "?Q d0" "polygon_errors lib False item = []"
      "create_polygon lib now item d0 = Inr (obj, d1)" for item d0 obj d1
    using that create_polygon_Inr(5) by metis
  have l: "?Q d'"
    if "bulk_loop (polygon_errors lib False) (create_polygon lib now) 0 items [] [] d = Inl (e, d')"
    for items e d'
    by (rule bulk_loop_inv_Inl[where Q = ?Q, OF _ refl that]) (rule step)
  have r: "?Q d'"
    if "bulk_loop (polygon_errors lib False) (create_polygon lib now) 0 items [] [] d = Inr (c, es, d')"
    for items c es d'
    by (rule bulk_loop_inv_Inr[where Q = ?Q, OF _ refl that]) (rule step)
  show ?thesis
    using l r
    by (auto simp: spatial_polygons_bulk_create_def
        split: request_data.splits option.splits sum.splits prod.splits)
qed

lemma points_bulk_inv:
  assumes A: "\<And>now uuid data. point_errors False data = [] \<Longrightarrow> P (new_point now uuid data)"
    and inv: "\<forall>e\<in>set (points d). P e"
  shows "\<forall>e\<in>set (points (snd (spatial_points_bulk_create now data d))). P e"
proof -
  let ?Q = "\<lambda>d. \<forall>e\<in>set (points d). P e"
  have step: "?Q d1"
    if q: "?Q d0" and ok: "point_errors False item = []"
      and c: "create_point now item d0 = Inr (obj, d1)" for item d0 obj d1
  proof -
    from create_point_Inr[OF c] A[OF ok] have "P obj" by auto
    with create_point_Inr(3)[OF c] q show ?thesis by auto
  qed
  have l: "?Q d'"
    if "bulk_loop (point_errors False) (create_point now) 0 items [] [] d = Inl (e, d')"
    for items e d'
    by (rule bulk_loop_inv_Inl[where Q = ?Q, OF _ inv that]) (rule step)
  have r: "?Q d'"
    if "bulk_loop (point_errors False) (create_point now) 0 items [] [] d = Inr (c, es, d')"
    for items c es d'
    by (rule bulk_loop_inv_Inr[where Q = ?Q, OF _ inv that]) (rule step)
  show ?thesis
    using inv l r
    by (auto simp: spatial_points_bulk_create_def
        split: request_data.splits option.splits sum.splits prod.splits)
qed

lemma handle_points_inv:
  assumes A: "\<And>now uuid data. point_errors False data = [] \<Longrightarrow> P (new_point now uuid data)"
    and B: "\<And>now data old partial. P old \<Longrightarrow> point_errors partial data = [] \<Longrightarrow>
                P (set_point now data old)"
    and inv: "\<forall>e\<in>set (points d). P e"
  shows "\<forall>e\<in>set (points (handle lib now r d)). P e"
proof (cases r)
  case (PolygonsListCreate m q item)
  have "points (snd (spatial_polygons_list_create lib now m q item d)) = points d"
    by (cases rule: polygons_post_cases[of lib now m q item d])
      (auto dest: create_polygon_Inr(5))
  with inv PolygonsListCreate show ?thesis by simp
next
  case (PolygonDetail m i item)
  have "points (snd (spatial_polygon_detail lib now m i item d)) = points d"
    by (cases rule: polygon_detail_cases[of lib now m i item d])
      (auto dest: update_polygon_Inr(5))
  with inv PolygonDetail show ?thesis by simp
next
  case (PolygonsBulk data)
  with inv polygons_bulk_points show ?thesis by simp
next
  case (PointsListCreate m q item)
  show ?thesis
  proof (cases rule: points_post_cases[of lib now m q item d])
    case unchanged
    with inv PointsListCreate show ?thesis by simp
  next
    case (created data obj d')
    from create_point_Inr(1)[OF created(4)] A[OF created(3)] have "P obj" by simp
    with create_point_Inr(3)[OF created(4)] inv have "\<forall>e\<in>set (points d'). P e" by auto
    with created(5) PointsListCreate show ?thesis by simp
  qed
next
  case (PointDetail m i item)
  show ?thesis
  proof (cases rule: point_detail_cases[of now m i item d])
    case unchanged
    with inv PointDetail show ?thesis by simp
  next
    case deleted
    with inv PointDetail show ?thesis by simp
  next
    case (updated old data obj d')
    have old: "P old" using inv find_SomeD[OF updated(3)] by blast
    from update_point_Inr(1)[OF updated(5)] B[OF old updated(4)] have "P obj" by simp
    with update_point_Inr(3)[OF updated(5)] inv have "\<forall>e\<in>set (points d'). P e" by auto
    with updated(6) PointDetail show ?thesis by simp
  qed
next
  case (PointsBulk data)
  with points_bulk_inv[of P d now data, OF A inv] show ?thesis by simp
qed

lemma run_points_inv:
  assumes A: "\<And>now uuid data. point_errors False data = [] \<Longrightarrow> P (new_point now uuid data)"
    and B: "\<And>now data old partial. P old \<Longrightarrow> point_errors partial data = [] \<Longrightarrow>
                P (set_point now data old)"
    and inv: "\<forall>e\<in>set (points d). P e"
  shows "\<forall>e\<in>set (points (run lib rs d)). P e"
  using inv
proof (induction rs arbitrary: d)
  case Nil
  then show ?case by simp
next
  case (Cons a rs)
  obtain now r where a: "a = (now, r)" by (cases a)
  have "\<forall>e\<in>set (points (handle lib now r d)). P e"
    by (rule handle_points_inv[of P, OF A B Cons.prems])
  from Cons.IH[OF this] a show ?case by simp
qed

lemma validate_location_Inr:
  "(\<exists>w. validate_location v = Inr w) \<longleftrightarrow>
   (\<exists>x y. v = Point x y \<and> - 90 \<le> y \<and> y \<le> 90 \<and> - 180 \<le> x \<and> x \<le> 180)"
  by (auto simp: validate_location_def Let_def split: geos_geometry.splits)

lemma validate_geometry_Inr:
  "(\<exists>w. validate_geometry lib v = Inr w) \<longleftrightarrow>
   (\<exists>rings. v = Polygon rings \<and> geos_valid lib v \<and> \<not> geos_area lib v < 1 / 10 ^ 10)"
  by (auto simp: validate_geometry_def split: geos_geometry.splits)

lemma field_errors_Nil:
  "field_errors field partial validate v = [] \<longleftrightarrow>
   (case v of None \<Rightarrow> partial | Some x \<Rightarrow> \<exists>w. validate x = Inr w)"
  by (auto simp: field_errors_def split: option.splits sum.splits validation_error.splits)

lemma point_errors_location:
  assumes "point_errors partial data = []"
  shows "case d_location data of
           None \<Rightarrow> partial
         | Some v \<Rightarrow> \<exists>x y. v = Point x y \<and> - 90 \<le> y \<and> y \<le> 90 \<and> - 180 \<le> x \<and> x \<le> 180"
  using assms validate_location_Inr
  by (auto simp: point_errors_def field_errors_Nil split: option.splits)

lemma polygon_errors_geometry:
  assumes "polygon_errors lib partial data = []"
  shows "case g_geometry data of
           None \<Rightarrow> partial
         | Some v \<Rightarrow> \<exists>rings. v = Polygon rings \<and> geos_valid lib v \<and> \<not> geos_area lib v < 1 / 10 ^ 10"
  using assms validate_geometry_Inr[of lib]
  by (auto simp: polygon_errors_def field_errors_Nil split: option.splits)

lemma new_point_ok: "point_errors False data = [] \<Longrightarrow> point_ok (new_point now uuid data)"
  using point_errors_location[of False data]
  by (auto simp: point_ok_def new_point_def split: option.splits)

lemma set_point_ok:
  "point_ok old \<Longrightarrow> point_errors partial data = [] \<Longrightarrow> point_ok (set_point now data old)"
  using point_errors_location[of partial data]
  by (auto simp: point_ok_def set_point_def split: option.splits)

lemma polygon_ok_save_area:
  "save_area lib self = Inr self' \<Longrightarrow> polygon_ok lib self' = polygon_ok lib self"
  by (simp add: polygon_ok_def save_area_Inr(1))

lemma new_polygon_ok:
  assumes "polygon_errors lib False data = []"
    and "save_area lib (new_polygon now uuid data) = Inr obj"
  shows "polygon_ok lib obj"
proof -
  have "polygon_ok lib (new_polygon now uuid data)"
    using polygon_errors_geometry[OF assms(1)]
    by (auto simp: polygon_ok_def new_polygon_def split: option.splits)
  then show ?thesis by (simp only: polygon_ok_save_area[OF assms(2)])
qed

lemma set_polygon_ok:
  assumes "polygon_ok lib old" and "polygon_errors lib partial data = []"
    and "save_area lib (set_polygon now data old) = Inr obj"
  shows "polygon_ok lib obj"
proof -
  have "polygon_ok lib (set_polygon now data old)"
    using polygon_errors_geometry[OF assms(2)] assms(1)
    by (auto simp: polygon_ok_def set_polygon_def split: option.splits)
  then show ?thesis by (simp only: polygon_ok_save_area[OF assms(3)])
qed

text \<open>
  C2. \<open>validate_location\<close> accepts exactly the point geometries with latitude in
  \<open>[-90, 90]\<close> and longitude in \<open>[-180, 180]\<close>; \<open>validate_geometry\<close> accepts exactly the
  polygon geometries that are valid and whose area, in the geometry's own unit, is not
  below \<open>1e-10\<close>. Every create and update, single or bulk, writes only what its
  serializer validated: over any run of requests, every stored point and every stored
  polygon satisfies these constraints.
\<close>

theorem invalid_geometry_never_stored:
  "((\<exists>w. validate_location v = Inr w) \<longleftrightarrow>
      (\<exists>x y. v = Point x y \<and> - 90 \<le> y \<and> y \<le> 90 \<and> - 180 \<le> x \<and> x \<le> 180)) \<and>
   ((\<exists>w. validate_geometry lib v = Inr w) \<longleftrightarrow>
      (\<exists>rings. v = Polygon rings \<and> geos_valid lib v \<and> \<not> geos_area lib v < 1 / 10 ^ 10)) \<and>
   ((\<forall>e\<in>set (points d). point_ok e) \<and> (\<forall>e\<in>set (polygons d). polygon_ok lib e) \<longrightarrow>
      (\<forall>e\<in>set (points (run lib rs d)). point_ok e) \<and>
      (\<forall>e\<in>set (polygons (run lib rs d)). polygon_ok lib e))"
proof (intro conjI impI)
  show "(\<exists>w. validate_location v = Inr w) \<longleftrightarrow>
      (\<exists>x y. v = Point x y \<and> - 90 \<le> y \<and> y \<le> 90 \<and> - 180 \<le> x \<and> x \<le> 180)"
    by (rule validate_location_Inr)
  show "(\<exists>w. validate_geometry lib v = Inr w) \<longleftrightarrow>
      (\<exists>rings. v = Polygon rings \<and> geos_valid lib v \<and> \<not> geos_area lib v < 1 / 10 ^ 10)"
    by (rule validate_geometry_Inr)
next
  assume inv: "(\<forall>e\<in>set (points d). point_ok e) \<and> (\<forall>e\<in>set (polygons d). polygon_ok lib e)"
  show "\<forall>e\<in>set (points (run lib rs d)). point_ok e"
    by (rule run_points_inv[of point_ok, OF new_point_ok set_point_ok]) (use inv in blast)+
  show "\<forall>e\<in>set (polygons (run lib rs d)). polygon_ok lib e"
    by (rule run_polygons_inv[of lib "polygon_ok lib", OF new_polygon_ok set_polygon_ok])
      (use inv in blast)+
qed


lemmas point_eval =
  spatial_points_list_create_def point_errors_def name_errors_def field_errors_def
  validate_location_def create_point_def save_point_def new_point_def or_default_def
  write_point_def point_payload_def nyc_data_def bad_lat_data_def line_data_def empty_db_def
  is_valid_def Let_def

lemma run_writes_example:
  "points (run reference_platform
      [(3, PointsListCreate POST [] (Object nyc_data)),
       (4, PointsListCreate POST [] (Object bad_lat_data)),
       (5, PointsBulk (JDict [(''points'', JList [Object line_data, Object bad_lat_data, Scalar])])),
       (6, PolygonsListCreate POST [] (Object not_a_polygon_data)),
       (7, PolygonsListCreate POST [] (Object polar_data)),
       (8, PolygonsListCreate POST [] (Object square_data))] empty_db) =
     [\<lparr>pt_id = 0, pt_name = ''nyc'', pt_description = None,
       pt_location = Some (Point (- 73) 40), pt_properties = [], pt_created_at = 3,
       pt_updated_at = 3, pt_is_active = True\<rparr>]"
  "map pg_geometry (polygons (run reference_platform
      [(3, PointsListCreate POST [] (Object nyc_data)),
       (4, PointsListCreate POST [] (Object bad_lat_data)),
       (5, PointsBulk (JDict [(''points'', JList [Object line_data, Object bad_lat_data, Scalar])])),
       (6, PolygonsListCreate POST [] (Object not_a_polygon_data)),
       (7, PolygonsListCreate POST [] (Object polar_data)),
       (8, PolygonsListCreate POST [] (Object square_data))] empty_db)) =
     [Some (Polygon [[(0, 0), (0, 1 / 100), (1 / 100, 1 / 100), (1 / 100, 0), (0, 0)]])]"
  by (simp_all add: point_eval spatial_points_bulk_create_def bulk_response_def
      spatial_polygons_list_create_def polygon_errors_def validate_geometry_def square_data_def
      not_a_polygon_data_def polar_data_def reference_platform_def planar_valid_def
      closed_ring_def planar_area_def ring_area_def create_polygon_def save_def save_area_def
      new_polygon_def write_polygon_def planar_transform_def latitudes_def scale_def)

theorem invalid_geometry_never_stored_witness:
  "points empty_db = [] \<and> polygons empty_db = [] \<and>
   \<not> (\<exists>w. validate_location (Point 10 95) = Inr w) \<and>
   \<not> (\<exists>w. validate_geometry reference_platform (Point 0 0) = Inr w) \<and>
   map pt_location
     (points (run reference_platform
        [(3, PointsListCreate POST [] (Object nyc_data)),
         (4, PointsListCreate POST [] (Object bad_lat_data)),
         (5, PointsBulk (JDict [(''points'', JList [Object line_data, Object bad_lat_data, Scalar])])),
         (6, PolygonsListCreate POST [] (Object not_a_polygon_data)),
         (7, PolygonsListCreate POST [] (Object polar_data)),
         (8, PolygonsListCreate POST [] (Object square_data))] empty_db)) =
     [Some (Point (- 73) 40)] \<and>
   map pg_geometry
     (polygons (run reference_platform
        [(3, PointsListCreate POST [] (Object nyc_data)),
         (4, PointsListCreate POST [] (Object bad_lat_data)),
         (5, PointsBulk (JDict [(''points'', JList [Object line_data, Object bad_lat_data, Scalar])])),
         (6, PolygonsListCreate POST [] (Object not_a_polygon_data)),
         (7, PolygonsListCreate POST [] (Object polar_data)),
         (8, PolygonsListCreate POST [] (Object square_data))] empty_db)) =
     [Some (Polygon [[(0, 0), (0, 1 / 100), (1 / 100, 1 / 100), (1 / 100, 0), (0, 0)]])] \<and>
   list_all point_ok
     (points (run reference_platform
        [(3, PointsListCreate POST [] (Object nyc_data)),
         (4, PointsListCreate POST [] (Object bad_lat_data)),
         (5, PointsBulk (JDict [(''points'', JList [Object line_data, Object bad_lat_data, Scalar])])),
         (6, PolygonsListCreate POST [] (Object not_a_polygon_data)),
         (7, PolygonsListCreate POST [] (Object polar_data)),
         (8, PolygonsListCreate POST [] (Object square_data))] empty_db)) \<and>
   list_all (polygon_ok reference_platform)
     (polygons (run reference_platform
        [(3, PointsListCreate POST [] (Object nyc_data)),
         (4, PointsListCreate POST [] (Object bad_lat_data)),
         (5, PointsBulk (JDict [(''points'', JList [Object line_data, Object bad_lat_data, Scalar])])),
         (6, PolygonsListCreate POST [] (Object not_a_polygon_data)),
         (7, PolygonsListCreate POST [] (Object polar_data)),
         (8, PolygonsListCreate POST [] (Object square_data))] empty_db))"
proof -
  let ?rs = "[(3, PointsListCreate POST [] (Object nyc_data)),
         (4, PointsListCreate POST [] (Object bad_lat_data)),
         (5, PointsBulk (JDict [(''points'', JList [Object line_data, Object bad_lat_data, Scalar])])),
         (6, PolygonsListCreate POST [] (Object not_a_polygon_data)),
         (7, PolygonsListCreate POST [] (Object polar_data)),
         (8, PolygonsListCreate POST [] (Object square_data))]"
  note t = invalid_geometry_never_stored[where lib = reference_platform and d = empty_db
      and rs = ?rs]
  have e: "points empty_db = []" "polygons empty_db = []"
    by (simp_all add: empty_db_def)
  have h: "(\<forall>e\<in>set (points empty_db). point_ok e) \<and>
           (\<forall>e\<in>set (polygons empty_db). polygon_ok reference_platform e)"
    by (simp add: e)
  have v1: "\<not> (\<exists>w. validate_location (Point 10 95) = Inr w)"
    using t[where v = "Point 10 95", THEN conjunct1] by simp
  have v2: "\<not> (\<exists>w. validate_geometry reference_platform (Point 0 0) = Inr w)"
    using t[where v = "Point 0 0", THEN conjunct2, THEN conjunct1] by simp
  note inv = mp[OF t[THEN conjunct2, THEN conjunct2] h]
  have l1: "list_all point_ok (points (run reference_platform ?rs empty_db))"
    unfolding list_all_iff by (rule inv[THEN conjunct1])
  have l2: "list_all (polygon_ok reference_platform) (polygons (run reference_platform ?rs empty_db))"
    unfolding list_all_iff by (rule inv[THEN conjunct2])
  have m1: "map pt_location (points (run reference_platform ?rs empty_db)) =
     [Some (Point (- 73) 40)]"
    by (subst run_writes_example) simp
  show ?thesis
    by (intro conjI e v1 v2 m1 run_writes_example(2) l1 l2)
qed

subsection \<open>Nearby points\<close>

lemma get_distance_location: "get_distance location_field (D r) = Inl ValueError"
  by (simp add: get_distance_def location_field_def geodetic_def)

lemma nearby_points_raises: "nearby_points lib lat lng r d = Inl ValueError"
  by (simp add: nearby_points_def get_distance_location)

lemma spatial_points_nearby_numeric:
  assumes "float_param lib q ''lat'' = Some lat" and "float_param lib q ''lng'' = Some lng"
    and "(case map_of q ''distance'' of None \<Rightarrow> Some 1000 | Some s \<Rightarrow> py_float lib s) = Some r"
  shows "spatial_points_nearby lib q d = Response 500 (Error ''ValueError'')"
  using assms
  by (simp add: spatial_points_nearby_def nearby_points_raises HTTP_500_def exception_name_def)

lemma spatial_points_nearby_given:
  assumes "float_param lib q ''lat'' = Some lat" and "float_param lib q ''lng'' = Some lng"
    and "float_param lib q ''distance'' = Some r"
  shows "spatial_points_nearby lib q d = Response 500 (Error ''ValueError'')"
proof -
  from assms(3)
  have "(case map_of q ''distance'' of None \<Rightarrow> Some 1000 | Some s \<Rightarrow> py_float lib s) = Some r"
    by (auto simp: float_param_def split: option.splits)
  from spatial_points_nearby_numeric[OF assms(1,2) this] show ?thesis .
qed

lemma spatial_points_nearby_invalid:
  assumes "float_param lib q ''lat'' = None \<or> float_param lib q ''lng'' = None \<or>
      (map_of q ''distance'' \<noteq> None \<and> float_param lib q ''distance'' = None)"
  shows "spatial_points_nearby lib q d =
     Response 400 (Error ''Invalid parameters. lat, lng, and distance must be numbers'')"
  using assms
  by (auto simp: spatial_points_nearby_def float_param_def Let_def split: option.splits)


lemmas nearby_eval =
  float_param_def reference_platform_def parse_float_def parse_int_def three_points_db_def
  new_point_def point_payload_def nyc_data_def or_default_def

text \<open>
  C4. The nearby view does not return the active points within the distance. When
  \<open>lat\<close>, \<open>lng\<close> and \<open>distance\<close> are numbers, the view hands the \<open>Distance\<close> object
  \<open>D(m=distance)\<close> to the \<open>dwithin\<close> lookup on the geodetic column \<open>location\<close>; the lookup
  refuses it with \<open>ValueError\<close>, outside the \<open>try\<close> of the view, and the request ends
  with status 500 and no result, whatever rows are stored. Only the other half holds:
  when \<open>lat\<close> or \<open>lng\<close> is missing or not a number, or \<open>distance\<close> is given and not a
  number, the answer is the 400 error.
\<close>

theorem nearby_query_raises:
  "(float_param lib q ''lat'' = Some lat \<and> float_param lib q ''lng'' = Some lng \<and>
    float_param lib q ''distance'' = Some radius \<longrightarrow>
      nearby_points lib lat lng radius d = Inl ValueError \<and>
      spatial_points_nearby lib q d = Response 500 (Error ''ValueError'')) \<and>
   (float_param lib q ''lat'' = None \<or> float_param lib q ''lng'' = None \<or>
    (map_of q ''distance'' \<noteq> None \<and> float_param lib q ''distance'' = None) \<longrightarrow>
      spatial_points_nearby lib q d =
        Response 400 (Error ''Invalid parameters. lat, lng, and distance must be numbers''))"
proof (intro conjI impI)
  assume h: "float_param lib q ''lat'' = Some lat \<and> float_param lib q ''lng'' = Some lng \<and>
    float_param lib q ''distance'' = Some radius"
  show "nearby_points lib lat lng radius d = Inl ValueError"
    by (rule nearby_points_raises)
  from h show "spatial_points_nearby lib q d = Response 500 (Error ''ValueError'')"
    by (intro spatial_points_nearby_given[where r = radius]) simp_all
next
  assume "float_param lib q ''lat'' = None \<or> float_param lib q ''lng'' = None \<or>
    (map_of q ''distance'' \<noteq> None \<and> float_param lib q ''distance'' = None)"
  then show "spatial_points_nearby lib q d =
        Response 400 (Error ''Invalid parameters. lat, lng, and distance must be numbers'')"
    by (rule spatial_points_nearby_invalid)
qed

theorem nearby_query_raises_witness:
  "pt_location (points three_points_db ! 0) = Some (Point (- 73) 40) \<and>
   pt_is_active (points three_points_db ! 0) \<and>
   float_param reference_platform [(''lat'', ''40''), (''lng'', ''-73''), (''distance'', ''100'')] ''lat'' =
     Some 40 \<and>
   float_param reference_platform [(''lat'', ''40''), (''lng'', ''-73''), (''distance'', ''100'')] ''lng'' =
     Some (- 73) \<and>
   float_param reference_platform [(''lat'', ''40''), (''lng'', ''-73''), (''distance'', ''100'')] ''distance'' =
     Some 100 \<and>
   spatial_points_nearby reference_platform
     [(''lat'', ''40''), (''lng'', ''-73''), (''distance'', ''100'')] three_points_db =
     Response 500 (Error ''ValueError'') \<and>
   float_param reference_platform [(''lat'', ''north'')] ''lat'' = None \<and>
   spatial_points_nearby reference_platform [(''lat'', ''north'')] three_points_db =
     Response 400 (Error ''Invalid parameters. lat, lng, and distance must be numbers'')"
proof -
  let ?q = "[(''lat'', ''40''), (''lng'', ''-73''), (''distance'', ''100'')]"
  note t = nearby_query_raises[where lib = reference_platform and d = three_points_db]
  have s: "pt_location (points three_points_db ! 0) = Some (Point (- 73) 40)"
    "pt_is_active (points three_points_db ! 0)"
    by (simp_all add: nearby_eval)
  have h: "float_param reference_platform ?q ''lat'' = Some 40 \<and>
      float_param reference_platform ?q ''lng'' = Some (- 73) \<and>
      float_param reference_platform ?q ''distance'' = Some 100"
    by (simp add: nearby_eval)
  from mp[OF t[where q = ?q and lat = 40 and lng = "- 73" and radius = 100, THEN conjunct1] h]
  have r: "spatial_points_nearby reference_platform ?q three_points_db =
      Response 500 (Error ''ValueError'')"
    by (rule conjunct2)
  have n: "float_param reference_platform [(''lat'', ''north'')] ''lat'' = None"
    by (simp add: nearby_eval)
  from t[where q = "[(''lat'', ''north'')]", THEN conjunct2] n
  have bad: "spatial_points_nearby reference_platform [(''lat'', ''north'')] three_points_db =
     Response 400 (Error ''Invalid parameters. lat, lng, and distance must be numbers'')"
    by blast
  from s h r n bad show ?thesis by blast
qed



lemma float_param_append:
  "map_of q key \<noteq> None \<Longrightarrow> float_param lib (q @ extra) key = float_param lib q key"
  by (auto simp: float_param_def map_add_def split: option.splits)

text \<open>
  C10. A nearby query with numeric \<open>lat\<close> and \<open>lng\<close> and no \<open>distance\<close> parameter takes
  the default 1000 for the distance, and then fails all the same: the search at 1000
  is refused by the \<open>dwithin\<close> lookup with \<open>ValueError\<close> and the answer is status 500,
  as it is when \<open>distance\<close> is sent as a text that reads 1000. A query without \<open>lat\<close> or
  without \<open>lng\<close> is answered with the 400 error.
\<close>

theorem nearby_default_distance_raises:
  "(float_param lib q ''lat'' = Some lat \<and> float_param lib q ''lng'' = Some lng \<and>
    map_of q ''distance'' = None \<longrightarrow>
      spatial_points_nearby lib q d =
        (case nearby_points lib lat lng 1000 d of
           Inl e \<Rightarrow> HTTP_500 e
         | Inr rows \<Rightarrow>
             Response 200
               (Nearby (map (\<lambda>point. (point, py_round (distance_m lib lat lng point) 2)) rows))) \<and>
      spatial_points_nearby lib q d = Response 500 (Error ''ValueError'') \<and>
      (\<forall>s. py_float lib s = Some 1000 \<longrightarrow>
         spatial_points_nearby lib (q @ [(''distance'', s)]) d =
           Response 500 (Error ''ValueError''))) \<and>
   (map_of q ''lat'' = None \<or> map_of q ''lng'' = None \<longrightarrow>
      spatial_points_nearby lib q d =
        Response 400 (Error ''Invalid parameters. lat, lng, and distance must be numbers''))"
proof (intro conjI impI allI)
  assume h: "float_param lib q ''lat'' = Some lat \<and> float_param lib q ''lng'' = Some lng \<and>
    map_of q ''distance'' = None"
  then show "spatial_points_nearby lib q d =
        (case nearby_points lib lat lng 1000 d of
           Inl e \<Rightarrow> HTTP_500 e
         | Inr rows \<Rightarrow>
             Response 200
               (Nearby (map (\<lambda>point. (point, py_round (distance_m lib lat lng point) 2)) rows)))"
    by (simp add: spatial_points_nearby_def)
  from h show "spatial_points_nearby lib q d = Response 500 (Error ''ValueError'')"
    by (intro spatial_points_nearby_numeric[where r = 1000]) simp_all
  fix s assume s: "py_float lib s = Some 1000"
  from h have present: "map_of q ''lat'' \<noteq> None" "map_of q ''lng'' \<noteq> None"
    by (auto simp: float_param_def split: option.splits)
  show "spatial_points_nearby lib (q @ [(''distance'', s)]) d = Response 500 (Error ''ValueError'')"
    using h s present
    by (intro spatial_points_nearby_numeric[where r = 1000])
      (simp_all add: float_param_append map_add_def)
next
  assume "map_of q ''lat'' = None \<or> map_of q ''lng'' = None"
  then have "float_param lib q ''lat'' = None \<or> float_param lib q ''lng'' = None"
    by (auto simp: float_param_def)
  then show "spatial_points_nearby lib q d =
        Response 400 (Error ''Invalid parameters. lat, lng, and distance must be numbers'')"
    by (intro spatial_points_nearby_invalid) blast
qed

theorem nearby_default_distance_raises_witness:
  "pt_location (points three_points_db ! 0) = Some (Point (- 73) 40) \<and>
   pt_is_active (points three_points_db ! 0) \<and>
   float_param reference_platform [(''lat'', ''40''), (''lng'', ''-73'')] ''lat'' = Some 40 \<and>
   float_param reference_platform [(''lat'', ''40''), (''lng'', ''-73'')] ''lng'' = Some (- 73) \<and>
   map_of [(''lat'', ''40''), (''lng'', ''-73'')] ''distance'' = None \<and>
   spatial_points_nearby reference_platform [(''lat'', ''40''), (''lng'', ''-73'')] three_points_db =
     Response 500 (Error ''ValueError'') \<and>
   py_float reference_platform ''1000'' = Some 1000 \<and>
   spatial_points_nearby reference_platform
     ([(''lat'', ''40''), (''lng'', ''-73'')] @ [(''distance'', ''1000'')]) three_points_db =
     Response 500 (Error ''ValueError'') \<and>
   map_of [(''lng'', ''-73''), (''distance'', ''1000'')] ''lat'' = None \<and>
   spatial_points_nearby reference_platform [(''lng'', ''-73''), (''distance'', ''1000'')]
     three_points_db =
     Response 400 (Error ''Invalid parameters. lat, lng, and distance must be numbers'')"
proof -
  let ?q = "[(''lat'', ''40''), (''lng'', ''-73'')]"
  note t = nearby_default_distance_raises[where lib = reference_platform and d = three_points_db]
  have s: "pt_location (points three_points_db ! 0) = Some (Point (- 73) 40)"
    "pt_is_active (points three_points_db ! 0)"
    by (simp_all add: nearby_eval)
  have h: "float_param reference_platform ?q ''lat'' = Some 40 \<and>
      float_param reference_platform ?q ''lng'' = Some (- 73) \<and> map_of ?q ''distance'' = None"
    by (simp add: nearby_eval)
  have p: "py_float reference_platform ''1000'' = Some 1000"
    by (simp add: reference_platform_def parse_float_def parse_int_def)
  note r = mp[OF t[where q = ?q and lat = 40 and lng = "- 73", THEN conjunct1] h]
  have a: "spatial_points_nearby reference_platform ?q three_points_db =
      Response 500 (Error ''ValueError'')"
    by (rule r[THEN conjunct2, THEN conjunct1])
  have c: "spatial_points_nearby reference_platform (?q @ [(''distance'', ''1000'')]) three_points_db =
      Response 500 (Error ''ValueError'')"
    by (rule mp[OF spec[OF r[THEN conjunct2, THEN conjunct2]] p])
  have m: "map_of [(''lng'', ''-73''), (''distance'', ''1000'')] ''lat'' = None"
    by simp
  from t[where q = "[(''lng'', ''-73''), (''distance'', ''1000'')]", THEN conjunct2] m
  have e: "spatial_points_nearby reference_platform [(''lng'', ''-73''), (''distance'', ''1000'')]
     three_points_db =
     Response 400 (Error ''Invalid parameters. lat, lng, and distance must be numbers'')"
    by blast
  from s h a p c m e show ?thesis by blast
qed

subsection \<open>Bulk ingestion\<close>

lemma bulk_loop_append:
  assumes "bulk_loop errs_of create i items created errors d = Inr (c, es, d')"
  shows "bulk_loop errs_of create i (items @ rest) created errors d =
         bulk_loop errs_of create (i + length items) rest c es d'"
  using assms
proof (induction items arbitrary: i created errors d)
  case Nil
  then show ?case by simp
next
  case (Cons item items)
  show ?case
  proof (cases "is_valid errs_of item")
    case (Inl e)
    with Cons.prems show ?thesis by simp
  next
    case (Inr v)
    show ?thesis
    proof (cases v)
      case (Inl errs)
      with Inr Cons.prems
      have "bulk_loop errs_of create (Suc i) items created (errors @ [(i, errs)]) d = Inr (c, es, d')"
        by simp
      from Cons.IH[OF this] Inr Inl show ?thesis by simp
    next
      case validated: (Inr data)
      show ?thesis
      proof (cases "create data d")
        case (Inl e)
        with Inr validated Cons.prems show ?thesis by simp
      next
        case saved: (Inr r)
        obtain obj d1 where r: "r = (obj, d1)" by (cases r)
        with Inr validated saved Cons.prems
        have "bulk_loop errs_of create (Suc i) items (created @ [obj]) errors d1 = Inr (c, es, d')"
          by simp
        from Cons.IH[OF this] Inr validated saved r show ?thesis by simp
      qed
    qed
  qed
qed

text \<open>An item that raises ends the loop, whatever comes before it and after it.\<close>

lemma bulk_loop_raises:
  assumes "\<exists>item\<in>set items.
      (\<exists>e. is_valid errs_of item = Inl e) \<or>
      (\<exists>data. is_valid errs_of item = Inr (Inr data) \<and> (\<forall>d. \<exists>e. create data d = Inl e))"
  shows "\<exists>e d'. bulk_loop errs_of create i items created errors d = Inl (e, d')"
  using assms
proof (induction items arbitrary: i created errors d)
  case Nil
  then show ?case by simp
next
  case (Cons item items)
  show ?case
  proof (cases "is_valid errs_of item")
    case (Inl e)
    then show ?thesis by simp
  next
    case (Inr v)
    show ?thesis
    proof (cases v)
      case (Inl errs)
      with Inr Cons.prems
      have "\<exists>item\<in>set items.
          (\<exists>e. is_valid errs_of item = Inl e) \<or>
          (\<exists>data. is_valid errs_of item = Inr (Inr data) \<and> (\<forall>d. \<exists>e. create data d = Inl e))"
        by auto
      from Cons.IH[OF this] Inr Inl show ?thesis by simp
    next
      case validated: (Inr data)
      show ?thesis
      proof (cases "create data d")
        case (Inl e)
        with Inr validated show ?thesis by simp
      next
        case saved: (Inr r)
        obtain obj d1 where r: "r = (obj, d1)" by (cases r)
        from saved have "\<not> (\<forall>d. \<exists>e. create data d = Inl e)"
          by (metis sum.distinct(1))
        with Inr validated Cons.prems
        have "\<exists>item\<in>set items.
            (\<exists>e. is_valid errs_of item = Inl e) \<or>
            (\<exists>data. is_valid errs_of item = Inr (Inr data) \<and> (\<forall>d. \<exists>e. create data d = Inl e))"
          by auto
        from Cons.IH[OF this] Inr validated saved r show ?thesis by simp
      qed
    qed
  qed
qed

lemma create_polygon_raises:
  assumes "g_geometry data = Some g" and "geos_transform lib 3857 g = None"
  shows "create_polygon lib now data d = Inl GDALException"
  using assms by (simp add: create_polygon_def save_def save_area_def new_polygon_def)

lemma points_bulk_response:
  assumes "envelope_items ''points'' data = Some items"
  shows "spatial_points_bulk_create now data d =
     (case bulk_loop (point_errors False) (create_point now) 0 items [] [] d of
        Inl (e, d') \<Rightarrow> (HTTP_500 e, d')
      | Inr (created_points, errors, d') \<Rightarrow> (bulk_response created_points errors, d'))"
  using assms
  by (auto simp: envelope_items_def spatial_points_bulk_create_def
      split: request_data.splits option.splits)

lemma polygons_bulk_response:
  assumes "envelope_items ''polygons'' data = Some items"
  shows "spatial_polygons_bulk_create lib now data d =
     (case bulk_loop (polygon_errors lib False) (create_polygon lib now) 0 items [] [] d of
        Inl (e, d') \<Rightarrow> (HTTP_500 e, d')
      | Inr (created_polygons, errors, d') \<Rightarrow> (bulk_response created_polygons errors, d'))"
  using assms
  by (auto simp: envelope_items_def spatial_polygons_bulk_create_def
      split: request_data.splits option.splits)

lemma envelope_items_list: "envelope_items key (JDict [(key, JList items)]) = Some items"
  by (simp add: envelope_items_def)

lemma points_bulk_bad_envelope:
  assumes "envelope_items ''points'' data = None"
  shows "\<exists>msg. spatial_points_bulk_create now data d = (Response 400 (Error msg), d)"
  using assms
  by (auto simp: envelope_items_def spatial_points_bulk_create_def
      split: request_data.splits option.splits)

lemma polygons_bulk_bad_envelope:
  assumes "envelope_items ''polygons'' data = None"
  shows "\<exists>msg. spatial_polygons_bulk_create lib now data d = (Response 400 (Error msg), d)"
  using assms
  by (auto simp: envelope_items_def spatial_polygons_bulk_create_def
      split: request_data.splits option.splits)

lemma status_HTTP_500: "status (HTTP_500 e) = 500"
  by (simp add: HTTP_500_def)

lemmas polygon_eval =
  polygon_errors_def name_errors_def field_errors_def validate_geometry_def
  square_data_def not_a_polygon_data_def polar_data_def reference_platform_def
  planar_valid_def closed_ring_def planar_area_def ring_area_def create_polygon_def save_def
  save_area_def new_polygon_def write_polygon_def planar_transform_def latitudes_def scale_def
  or_default_def empty_db_def is_valid_def

text \<open>
  C3. A batch with exactly one invalid item is not always answered with the other items
  created and the one error listed. The loop of the bulk views has no \<open>try\<close>: when the
  items before position \<open>k\<close> have been processed and the item at \<open>k\<close> is a number or a
  boolean, \<open>is_valid\<close> raises \<open>TypeError\<close>; when it is a polygon that passes validation
  and cannot be projected, \<open>save\<close> raises \<open>GDALException\<close>. Either way the request ends
  with status 500 and no report, the rows written before \<open>k\<close> stay, and the items after
  \<open>k\<close> are not created.
\<close>

theorem bulk_item_raises:
  "(bulk_loop (point_errors False) (create_point now) 0 items [] [] d = Inr (cs, es, d') \<longrightarrow>
      spatial_points_bulk_create now (JDict [(''points'', JList (items @ Scalar # rest))]) d =
        (Response 500 (Error ''TypeError''), d')) \<and>
   (bulk_loop (polygon_errors lib False) (create_polygon lib now) 0 gitems [] [] d =
      Inr (gcs, ges, d'') \<and>
    polygon_errors lib False data = [] \<and> g_geometry data = Some g \<and>
    geos_transform lib 3857 g = None \<longrightarrow>
      spatial_polygons_bulk_create lib now
        (JDict [(''polygons'', JList (gitems @ Object data # grest))]) d =
        (Response 500 (Error ''GDALException''), d''))"
proof (intro conjI impI)
  assume a: "bulk_loop (point_errors False) (create_point now) 0 items [] [] d = Inr (cs, es, d')"
  show "spatial_points_bulk_create now (JDict [(''points'', JList (items @ Scalar # rest))]) d =
        (Response 500 (Error ''TypeError''), d')"
    by (simp add: points_bulk_response[OF envelope_items_list] bulk_loop_append[OF a]
        is_valid_Scalar HTTP_500_def exception_name_def)
next
  assume h: "bulk_loop (polygon_errors lib False) (create_polygon lib now) 0 gitems [] [] d =
      Inr (gcs, ges, d'') \<and>
    polygon_errors lib False data = [] \<and> g_geometry data = Some g \<and>
    geos_transform lib 3857 g = None"
  then have a: "bulk_loop (polygon_errors lib False) (create_polygon lib now) 0 gitems [] [] d =
      Inr (gcs, ges, d'')"
    and v: "polygon_errors lib False data = []"
    and g: "g_geometry data = Some g" "geos_transform lib 3857 g = None"
    by simp_all
  show "spatial_polygons_bulk_create lib now
        (JDict [(''polygons'', JList (gitems @ Object data # grest))]) d =
        (Response 500 (Error ''GDALException''), d'')"
    by (simp add: polygons_bulk_response[OF envelope_items_list] bulk_loop_append[OF a]
        is_valid_Object v create_polygon_raises[OF g] HTTP_500_def exception_name_def)
qed

lemma points_prefix_example:
  "bulk_loop (point_errors False) (create_point 5) 0 [Object nyc_data] [] [] empty_db =
     Inr ([new_point 5 0 nyc_data], [],
          \<lparr>points = [new_point 5 0 nyc_data], polygons = [], next_id = Suc 0\<rparr>)"
  by (simp add: point_eval)

lemma polygons_prefix_example:
  "bulk_loop (polygon_errors reference_platform False) (create_polygon reference_platform 8) 0
     [Object square_data, Object not_a_polygon_data] [] [] empty_db =
     Inr ([square], [(Suc 0, [(''geometry'', [''Geometry must be a valid Polygon''])])],
          \<lparr>points = [], polygons = [square], next_id = Suc 0\<rparr>)"
  by (simp add: polygon_eval square_def)

lemma polar_example:
  "polygon_errors reference_platform False polar_data = [] \<and>
   g_geometry polar_data = Some (Polygon [[(0, 99), (0, 100), (1, 100), (1, 99), (0, 99)]]) \<and>
   geos_transform reference_platform 3857
     (Polygon [[(0, 99), (0, 100), (1, 100), (1, 99), (0, 99)]]) = None"
  by (simp add: polygon_eval)

theorem bulk_item_raises_witness:
  "spatial_points_bulk_create 5
     (JDict [(''points'', JList ([Object nyc_data] @ Scalar # [Object harbour_data]))]) empty_db =
     (Response 500 (Error ''TypeError''),
      \<lparr>points = [new_point 5 0 nyc_data], polygons = [], next_id = Suc 0\<rparr>) \<and>
   point_errors False nyc_data = [] \<and> point_errors False harbour_data = [] \<and>
   polygon_errors reference_platform False square_data = [] \<and>
   polygon_errors reference_platform False not_a_polygon_data \<noteq> [] \<and>
   polygon_errors reference_platform False polar_data = [] \<and>
   spatial_polygons_bulk_create reference_platform 8
     (JDict [(''polygons'',
        JList ([Object square_data, Object not_a_polygon_data] @ Object polar_data # []))])
     empty_db =
     (Response 500 (Error ''GDALException''),
      \<lparr>points = [], polygons = [square], next_id = Suc 0\<rparr>)"
proof -
  note t = bulk_item_raises[where d = empty_db]
  have a: "spatial_points_bulk_create 5
     (JDict [(''points'', JList ([Object nyc_data] @ Scalar # [Object harbour_data]))]) empty_db =
     (Response 500 (Error ''TypeError''),
      \<lparr>points = [new_point 5 0 nyc_data], polygons = [], next_id = Suc 0\<rparr>)"
    by (rule mp[OF t[where now = 5 and items = "[Object nyc_data]", THEN conjunct1]
          points_prefix_example])
  have h: "bulk_loop (polygon_errors reference_platform False) (create_polygon reference_platform 8) 0
       [Object square_data, Object not_a_polygon_data] [] [] empty_db =
       Inr ([square], [(Suc 0, [(''geometry'', [''Geometry must be a valid Polygon''])])],
          \<lparr>points = [], polygons = [square], next_id = Suc 0\<rparr>) \<and>
     polygon_errors reference_platform False polar_data = [] \<and>
     g_geometry polar_data = Some (Polygon [[(0, 99), (0, 100), (1, 100), (1, 99), (0, 99)]]) \<and>
     geos_transform reference_platform 3857
       (Polygon [[(0, 99), (0, 100), (1, 100), (1, 99), (0, 99)]]) = None"
    using polygons_prefix_example polar_example by simp
  have b: "spatial_polygons_bulk_create reference_platform 8
     (JDict [(''polygons'',
        JList ([Object square_data, Object not_a_polygon_data] @ Object polar_data # []))])
     empty_db =
     (Response 500 (Error ''GDALException''),
      \<lparr>points = [], polygons = [square], next_id = Suc 0\<rparr>)"
    by (rule mp[OF t[where lib = reference_platform and now = 8
            and gitems = "[Object square_data, Object not_a_polygon_data]"
            and data = polar_data, THEN conjunct2] h])
  have v: "point_errors False nyc_data = []" "point_errors False harbour_data = []"
    by (simp_all add: point_eval harbour_data_def)
  have w: "polygon_errors reference_platform False square_data = []"
    "polygon_errors reference_platform False not_a_polygon_data \<noteq> []"
    "polygon_errors reference_platform False polar_data = []"
    by (simp_all add: polygon_eval)
  show ?thesis
    by (intro conjI a v w b)
qed

lemma points_bulk_scalar_status:
  assumes "envelope_items ''points'' data = Some items" and "Scalar \<in> set items"
  shows "status (fst (spatial_points_bulk_create now data d)) = 500"
proof -
  have "\<exists>item\<in>set items.
      (\<exists>e. is_valid (point_errors False) item = Inl e) \<or>
      (\<exists>x. is_valid (point_errors False) item = Inr (Inr x) \<and>
           (\<forall>d. \<exists>e. create_point now x d = Inl e))"
    using assms(2) is_valid_Scalar by fastforce
  from bulk_loop_raises[OF this, of 0 "[]" "[]" d] show ?thesis
    by (auto simp: points_bulk_response[OF assms(1)] status_HTTP_500)
qed

lemma polygons_bulk_unprojectable_status:
  assumes "envelope_items ''polygons'' data = Some items"
    and "list_all (passes_validation (polygon_errors lib False)) items"
    and "list_ex (unprojectable lib) items"
  shows "status (fst (spatial_polygons_bulk_create lib now data d)) = 500"
proof -
  from assms(3) obtain item where item: "item \<in> set items" "unprojectable lib item"
    by (auto simp: list_ex_iff)
  then obtain x g where x: "item = Object x" "g_geometry x = Some g"
      "geos_transform lib 3857 g = None"
    by (auto simp: unprojectable_def split: item.splits option.splits)
  from assms(2) item(1) x(1) have "polygon_errors lib False x = []"
    by (auto simp: list_all_iff passes_validation_def)
  then have "is_valid (polygon_errors lib False) item = Inr (Inr x)"
    by (simp add: x(1) is_valid_Object)
  moreover have "\<forall>d. \<exists>e. create_polygon lib now x d = Inl e"
    using create_polygon_raises[OF x(2,3)] by blast
  ultimately have "\<exists>item\<in>set items.
      (\<exists>e. is_valid (polygon_errors lib False) item = Inl e) \<or>
      (\<exists>x. is_valid (polygon_errors lib False) item = Inr (Inr x) \<and>
           (\<forall>d. \<exists>e. create_polygon lib now x d = Inl e))"
    using item(1) by blast
  from bulk_loop_raises[OF this, of 0 "[]" "[]" d] show ?thesis
    by (auto simp: polygons_bulk_response[OF assms(1)] status_HTTP_500)
qed

text \<open>
  C8. A bulk request whose payload is not a dictionary holding the array field, or whose
  field is not a list, is answered 400 and leaves the database as it was. The two other
  outcomes are not always reported: a well-formed batch of polygons in which every item
  passes validation is answered 500, not 201, when one of them cannot be projected; and
  a well-formed batch of points that holds a number or a boolean, an item that cannot
  be valid, is answered 500, not 207.
\<close>

theorem bulk_status_on_exception:
  "(envelope_items ''points'' data = None \<longrightarrow>
      status (fst (spatial_points_bulk_create now data d)) = 400 \<and>
      snd (spatial_points_bulk_create now data d) = d) \<and>
   (envelope_items ''polygons'' gdata = None \<longrightarrow>
      status (fst (spatial_polygons_bulk_create lib now gdata d)) = 400 \<and>
      snd (spatial_polygons_bulk_create lib now gdata d) = d) \<and>
   (envelope_items ''polygons'' gdata = Some gitems \<and>
    list_all (passes_validation (polygon_errors lib False)) gitems \<and>
    list_ex (unprojectable lib) gitems \<longrightarrow>
      status (fst (spatial_polygons_bulk_create lib now gdata d)) = 500) \<and>
   (envelope_items ''points'' data = Some items \<and> Scalar \<in> set items \<longrightarrow>
      status (fst (spatial_points_bulk_create now data d)) = 500)"
proof (intro conjI impI)
  assume "envelope_items ''points'' data = None"
  from points_bulk_bad_envelope[OF this, of now d]
  show "status (fst (spatial_points_bulk_create now data d)) = 400"
    and "snd (spatial_points_bulk_create now data d) = d"
    by auto
next
  assume "envelope_items ''polygons'' gdata = None"
  from polygons_bulk_bad_envelope[OF this, of lib now d]
  show "status (fst (spatial_polygons_bulk_create lib now gdata d)) = 400"
    and "snd (spatial_polygons_bulk_create lib now gdata d) = d"
    by auto
next
  assume "envelope_items ''polygons'' gdata = Some gitems \<and>
    list_all (passes_validation (polygon_errors lib False)) gitems \<and>
    list_ex (unprojectable lib) gitems"
  then show "status (fst (spatial_polygons_bulk_create lib now gdata d)) = 500"
    by (intro polygons_bulk_unprojectable_status[where items = gitems]) simp_all
next
  assume "envelope_items ''points'' data = Some items \<and> Scalar \<in> set items"
  then show "status (fst (spatial_points_bulk_create now data d)) = 500"
    by (intro points_bulk_scalar_status[where items = items]) simp_all
qed

theorem bulk_status_on_exception_witness:
  "envelope_items ''points'' (JList [Object nyc_data]) = None \<and>
   status (fst (spatial_points_bulk_create 3 (JList [Object nyc_data]) empty_db)) = 400 \<and>
   snd (spatial_points_bulk_create 3 (JList [Object nyc_data]) empty_db) = empty_db \<and>
   envelope_items ''polygons'' (JDict [(''polygons'', JOther)]) = None \<and>
   status (fst (spatial_polygons_bulk_create reference_platform 3
                  (JDict [(''polygons'', JOther)]) empty_db)) = 400 \<and>
   snd (spatial_polygons_bulk_create reference_platform 3
          (JDict [(''polygons'', JOther)]) empty_db) = empty_db \<and>
   list_all (passes_validation (polygon_errors reference_platform False))
     [Object square_data, Object polar_data] \<and>
   list_ex (unprojectable reference_platform) [Object square_data, Object polar_data] \<and>
   status (fst (spatial_polygons_bulk_create reference_platform 3
                  (JDict [(''polygons'', JList [Object square_data, Object polar_data])])
                  empty_db)) = 500 \<and>
   passes_validation (point_errors False) (Object nyc_data) \<and>
   \<not> passes_validation (point_errors False) Scalar \<and>
   status (fst (spatial_points_bulk_create 3
                  (JDict [(''points'', JList [Object nyc_data, Scalar])]) empty_db)) = 500"
proof -
  note t = bulk_status_on_exception[where lib = reference_platform and now = 3 and d = empty_db]
  have e1: "envelope_items ''points'' (JList [Object nyc_data]) = None"
    by (simp add: envelope_items_def)
  have e2: "envelope_items ''polygons'' (JDict [(''polygons'', JOther)]) = None"
    by (simp add: envelope_items_def)
  note a = mp[OF t[where data = "JList [Object nyc_data]", THEN conjunct1] e1]
  note b = mp[OF t[where gdata = "JDict [(''polygons'', JOther)]",
        THEN conjunct2, THEN conjunct1] e2]
  have v: "list_all (passes_validation (polygon_errors reference_platform False))
     [Object square_data, Object polar_data]"
    by (simp add: passes_validation_def polygon_eval)
  have u: "list_ex (unprojectable reference_platform) [Object square_data, Object polar_data]"
    by (simp add: unprojectable_def polygon_eval)
  have h: "envelope_items ''polygons''
       (JDict [(''polygons'', JList [Object square_data, Object polar_data])]) =
       Some [Object square_data, Object polar_data] \<and>
     list_all (passes_validation (polygon_errors reference_platform False))
       [Object square_data, Object polar_data] \<and>
     list_ex (unprojectable reference_platform) [Object square_data, Object polar_data]"
    using v u by (simp add: envelope_items_def)
  note c = mp[OF t[where gdata = "JDict [(''polygons'', JList [Object square_data, Object polar_data])]"
        and gitems = "[Object square_data, Object polar_data]",
        THEN conjunct2, THEN conjunct2, THEN conjunct1] h]
  have p: "passes_validation (point_errors False) (Object nyc_data)"
    "\<not> passes_validation (point_errors False) Scalar"
    by (simp_all add: passes_validation_def point_eval)
  have k: "envelope_items ''points'' (JDict [(''points'', JList [Object nyc_data, Scalar])]) =
       Some [Object nyc_data, Scalar] \<and> Scalar \<in> set [Object nyc_data, Scalar]"
    by (simp add: envelope_items_def)
  note s = mp[OF t[where data = "JDict [(''points'', JList [Object nyc_data, Scalar])]"
        and items = "[Object nyc_data, Scalar]",
        THEN conjunct2, THEN conjunct2, THEN conjunct2] k]
  show ?thesis
    by (intro conjI e1 a[THEN conjunct1] a[THEN conjunct2] e2 b[THEN conjunct1]
        b[THEN conjunct2] v u c p s)
qed

subsection \<open>Rounding\<close>

lemma round_half_even_bounds:
  "\<bar>of_int (round_half_even x) - x\<bar> \<le> 1 / 2"
proof -
  have "of_int \<lfloor>x\<rfloor> \<le> x" "x < of_int \<lfloor>x\<rfloor> + 1" by linarith+
  then show ?thesis
    by (auto simp: round_half_even_def Let_def)
qed

lemma py_round_2_decimals:
  "\<exists>n::int. py_round x 2 = fl (of_int n / 100) \<and> \<bar>of_int n / 100 - x\<bar> \<le> 1 / 200"
proof -
  have "\<bar>of_int (round_half_even (x * 100)) - x * 100\<bar> \<le> 1 / 2"
    by (rule round_half_even_bounds)
  then have "\<bar>of_int (round_half_even (x * 100)) / 100 - x\<bar> \<le> 1 / 200"
    by (simp add: abs_le_iff field_simps)
  then show ?thesis
    by (auto simp: py_round_def intro!: exI[of _ "round_half_even (x * 100)"])
qed

lemma fl_zero: "fl 0 = 0"
  by (simp add: fl_def)

lemma py_round_zero: "py_round 0 n = 0"
  by (simp add: py_round_def round_half_even_def fl_zero)

lemma fdiv_zero: "fdiv 0 x = 0"
  by (simp add: fdiv_def fl_zero)

text \<open>
  The exponent search finds the binade of a number below \<open>2 ^ 53\<close> that is not
  subnormal, so \<open>fl\<close> can be computed from the binade.
\<close>

lemma exponent_down_eq:
  assumes "2 ^ 52 * 2 powi e \<le> a" and "a < 2 ^ 53 * 2 powi e"
    and "e \<le> e0" and "nat (e0 - e) < k"
  shows "exponent_down k a e0 = e"
  using assms(3,4)
proof (induction k arbitrary: e0)
  case 0
  then show ?case by simp
next
  case (Suc k)
  show ?case
  proof (cases "e0 = e")
    case True
    with assms(1) show ?thesis by simp
  next
    case False
    with Suc.prems have lt: "e + 1 \<le> e0" by simp
    have "(2::real) powi (e + 1) \<le> 2 powi e0"
      by (rule power_int_increasing[OF lt]) simp
    then have "2 * (2::real) powi e \<le> 2 powi e0"
      by (simp add: power_int_add_1)
    with assms(2) have "\<not> 2 ^ 52 * 2 powi e0 \<le> a" by simp
    moreover have "exponent_down k a (e0 - 1) = e"
      using lt Suc.prems by (intro Suc.IH) auto
    ultimately show ?thesis by simp
  qed
qed

lemma fl_eval:
  assumes "2 ^ 52 \<le> \<bar>x\<bar> * 2 ^ n" and "\<bar>x\<bar> * 2 ^ n < 2 ^ 53" and "n < 1074"
  shows "fl x = of_int (round_half_even (x * 2 ^ n)) / 2 ^ n"
proof -
  have p: "(2::real) powi (- int n) = 1 / 2 ^ n"
    by (simp add: power_int_minus_divide)
  have a: "2 ^ 52 * 2 powi (- int n) \<le> \<bar>x\<bar>" "\<bar>x\<bar> < 2 ^ 53 * 2 powi (- int n)"
    using assms(1,2) by (simp_all add: p field_simps)
  have small: "\<not> 2 ^ 53 \<le> \<bar>x\<bar>"
  proof -
    have "\<bar>x\<bar> \<le> \<bar>x\<bar> * 2 ^ n" by (simp add: mult_le_cancel_left1)
    with assms(2) show ?thesis by simp
  qed
  have e: "float_exponent x = - int n"
    using exponent_down_eq[OF a, of 0 1074] assms(3) small
    by (simp add: float_exponent_def)
  have nz: "x \<noteq> 0" using assms(1) by auto
  show ?thesis
    by (simp add: fl_def nz e p)
qed

text \<open>
  Floats at work: 15000 is a float; 15000 divided by 1000000 is the float just below
  0.015, which rounds to 0.01; on the exact quotient, a tie, the rounding would give
  0.02.
\<close>

lemma fadd_example: "fadd 10000 5000 = 15000"
  by (simp add: fadd_def fl_eval[where n = 39] round_half_even_def)

lemma py_round_15000: "py_round 15000 2 = 15000"
  by (simp add: py_round_def fl_eval[where n = 39] round_half_even_def)

lemma fdiv_example: "fdiv 15000 1000000 = 8646911284551352 / 2 ^ 59"
  by (simp add: fdiv_def fl_eval[where n = 59] round_half_even_def)

lemma fdiv_example_below: "fdiv 15000 1000000 < 15 / 1000"
  by (simp add: fdiv_example)

lemma fl_hundredth: "fl (1 / 100) = 5764607523034235 / 2 ^ 59"
  by (simp add: fl_eval[where n = 59] round_half_even_def)

lemma py_round_sqkm_example: "py_round (fdiv 15000 1000000) 2 = fl (1 / 100)"
  by (simp add: fdiv_example py_round_def round_half_even_def)

lemma exact_tie_example: "round_half_even (15000 / 1000000 * 10 ^ 2) = 2"
  by (simp add: round_half_even_def)

subsection \<open>Summary\<close>

lemma map_filter_id_map: "List.map_filter (\<lambda>v. v) (map g xs) = List.map_filter g xs"
  by (induction xs) (simp_all add: map_filter_simps split: option.splits)

lemma sql_sum_or_zero:
  "(case sql_sum (map g xs) of None \<Rightarrow> 0 | Some t \<Rightarrow> if t = 0 then 0 else t) =
     float_sum (List.map_filter g xs)"
  by (simp add: sql_sum_def float_sum_def map_filter_id_map split: list.splits)

text \<open>
  C7. The summary counts the active points and the active polygons. Its square-metre
  total is the sum of the stored \<open>area\<close> fields of the active polygons (a float sum, rows
  without an area left out), rounded to two decimals: the float nearest to a multiple of
  0.01 that is within 0.005 of the sum. Its square-kilometre total is that same unrounded
  sum divided by 1000000, rounded to two decimals on its own. No geometry and no
  collaborator enters the computation. Without active polygons both totals are 0.
\<close>

theorem summary_totals:
  "\<exists>s t. spatial_analysis_summary now d = Response 200 (Summary s) \<and>
     total_points s = length (filter pt_is_active (points d)) \<and>
     total_polygons s = length (filter pg_is_active (polygons d)) \<and>
     t = float_sum (List.map_filter pg_area (filter pg_is_active (polygons d))) \<and>
     total_polygon_area_sqm s = py_round t 2 \<and>
     total_polygon_area_sqkm s = py_round (fdiv t 1000000) 2 \<and>
     (\<exists>n::int. total_polygon_area_sqm s = fl (of_int n / 100) \<and>
        \<bar>of_int n / 100 - t\<bar> \<le> 1 / 200) \<and>
     (\<exists>n::int. total_polygon_area_sqkm s = fl (of_int n / 100) \<and>
        \<bar>of_int n / 100 - fdiv t 1000000\<bar> \<le> 1 / 200) \<and>
     (filter pg_is_active (polygons d) = [] \<longrightarrow>
        total_polygons s = 0 \<and> total_polygon_area_sqm s = 0 \<and> total_polygon_area_sqkm s = 0)"
proof -
  let ?t = "float_sum (List.map_filter pg_area (filter pg_is_active (polygons d)))"
  let ?s = "\<lparr>total_points = length (filter pt_is_active (points d)),
         total_polygons = length (filter pg_is_active (polygons d)),
         total_polygon_area_sqm = py_round ?t 2,
         total_polygon_area_sqkm = py_round (fdiv ?t 1000000) 2,
         timestamp = now\<rparr>"
  have s: "spatial_analysis_summary now d = Response 200 (Summary ?s)"
    unfolding spatial_analysis_summary_def Let_def sql_sum_or_zero by simp
  have z: "filter pg_is_active (polygons d) = [] \<longrightarrow>
      py_round ?t 2 = 0 \<and> py_round (fdiv ?t 1000000) 2 = 0"
    by (simp add: List.map_filter_def float_sum_def py_round_zero fdiv_zero)
  have "spatial_analysis_summary now d = Response 200 (Summary ?s) \<and>
     total_points ?s = length (filter pt_is_active (points d)) \<and>
     total_polygons ?s = length (filter pg_is_active (polygons d)) \<and>
     ?t = float_sum (List.map_filter pg_area (filter pg_is_active (polygons d))) \<and>
     total_polygon_area_sqm ?s = py_round ?t 2 \<and>
     total_polygon_area_sqkm ?s = py_round (fdiv ?t 1000000) 2 \<and>
     (\<exists>n::int. total_polygon_area_sqm ?s = fl (of_int n / 100) \<and>
        \<bar>of_int n / 100 - ?t\<bar> \<le> 1 / 200) \<and>
     (\<exists>n::int. total_polygon_area_sqkm ?s = fl (of_int n / 100) \<and>
        \<bar>of_int n / 100 - fdiv ?t 1000000\<bar> \<le> 1 / 200) \<and>
     (filter pg_is_active (polygons d) = [] \<longrightarrow>
        total_polygons ?s = 0 \<and> total_polygon_area_sqm ?s = 0 \<and> total_polygon_area_sqkm ?s = 0)"
    using s z py_round_2_decimals[of ?t] py_round_2_decimals[of "fdiv ?t 1000000"]
    by simp
  then show ?thesis by blast
qed

lemma parks_active:
  "filter pg_is_active (polygons parks_db) = [park, parking_lot]"
  "List.map_filter pg_area [park, parking_lot] = [10000, 5000]"
  "length (filter pt_is_active (points parks_db)) = 2"
  by (simp_all add: parks_db_def park_def parking_lot_def lake_def stored_polygon_def
      List.map_filter_def three_points_db_def new_point_def or_default_def point_payload_def
      nyc_data_def harbour_data_def near_nyc_data_def)

theorem summary_totals_witness:
  "map pg_area (polygons parks_db) = [Some 10000, Some 5000, Some 800] \<and>
   map pg_is_active (polygons parks_db) = [True, True, False] \<and>
   (\<exists>s. spatial_analysis_summary 9 parks_db = Response 200 (Summary s) \<and>
      total_points s = 2 \<and> total_polygons s = 2 \<and> total_polygon_area_sqm s = 15000 \<and>
      total_polygon_area_sqkm s = fl (1 / 100) \<and>
      total_polygon_area_sqkm s = 5764607523034235 / 2 ^ 59) \<and>
   filter pg_is_active (polygons three_points_db) = [] \<and>
   (\<exists>s. spatial_analysis_summary 9 three_points_db = Response 200 (Summary s) \<and>
      total_points s = 2 \<and> total_polygons s = 0 \<and> total_polygon_area_sqm s = 0 \<and>
      total_polygon_area_sqkm s = 0)"
proof -
  have a: "map pg_area (polygons parks_db) = [Some 10000, Some 5000, Some 800]"
    "map pg_is_active (polygons parks_db) = [True, True, False]"
    by (simp_all add: parks_db_def park_def parking_lot_def lake_def stored_polygon_def)
  have t: "float_sum (List.map_filter pg_area (filter pg_is_active (polygons parks_db))) = 15000"
    unfolding parks_active by (simp add: float_sum_def fadd_example)
  from summary_totals[of 9 parks_db] obtain s where
    s: "spatial_analysis_summary 9 parks_db = Response 200 (Summary s)"
      "total_points s = length (filter pt_is_active (points parks_db))"
      "total_polygons s = length (filter pg_is_active (polygons parks_db))"
      "total_polygon_area_sqm s =
         py_round (float_sum (List.map_filter pg_area (filter pg_is_active (polygons parks_db)))) 2"
      "total_polygon_area_sqkm s =
         py_round (fdiv (float_sum (List.map_filter pg_area
            (filter pg_is_active (polygons parks_db)))) 1000000) 2"
    by blast
  have n: "total_points s = 2" "total_polygons s = 2"
    using s(2,3) by (simp_all add: parks_active)
  have m: "total_polygon_area_sqm s = 15000"
    using s(4) by (simp only: t py_round_15000)
  have k: "total_polygon_area_sqkm s = fl (1 / 100)"
    using s(5) by (simp only: t py_round_sqkm_example)
  have k': "total_polygon_area_sqkm s = 5764607523034235 / 2 ^ 59"
    using k by (simp only: fl_hundredth)
  from s(1) n m k k'
  have b: "\<exists>s. spatial_analysis_summary 9 parks_db = Response 200 (Summary s) \<and>
      total_points s = 2 \<and> total_polygons s = 2 \<and> total_polygon_area_sqm s = 15000 \<and>
      total_polygon_area_sqkm s = fl (1 / 100) \<and>
      total_polygon_area_sqkm s = 5764607523034235 / 2 ^ 59"
    by blast
  have h: "filter pg_is_active (polygons three_points_db) = []"
    by (simp add: three_points_db_def)
  have p: "length (filter pt_is_active (points three_points_db)) = 2"
    by (simp add: three_points_db_def new_point_def point_payload_def nyc_data_def
        harbour_data_def near_nyc_data_def or_default_def)
  from summary_totals[of 9 three_points_db] h p
  have c: "\<exists>s. spatial_analysis_summary 9 three_points_db = Response 200 (Summary s) \<and>
      total_points s = 2 \<and> total_polygons s = 0 \<and> total_polygon_area_sqm s = 0 \<and>
      total_polygon_area_sqkm s = 0"
    by auto
  from a b h c show ?thesis by blast
qed

subsection \<open>List views\<close>

lemma icontains_iff:
  "icontains n s \<longleftrightarrow> (\<exists>pre suf. lower s = pre @ lower n @ suf)"
  by (simp add: icontains_def sublist_def)

lemma icontains_empty: "icontains [] s"
  by (simp add: icontains_def lower_def)

lemma name_stage:
  "(case map_of q ''name'' of
      Some n \<Rightarrow> if n \<noteq> [] then filter (\<lambda>e. icontains n (nm e)) xs else xs
    | None \<Rightarrow> xs) = filter (\<lambda>e. name_matches q (nm e)) xs"
  by (simp add: name_matches_def icontains_empty split: option.splits)

lemma active_stage:
  "(case map_of q ''is_active'' of
      Some v \<Rightarrow> filter (\<lambda>e. act e = (lower v = ''true'')) xs
    | None \<Rightarrow> xs) = filter (\<lambda>e. active_matches q (act e)) xs"
  by (simp add: active_matches_def split: option.splits)

lemma min_stage:
  "(case map_of q ''min_area'' of
      Some s \<Rightarrow>
        if s \<noteq> [] then
          (case py_float lib s of
             Some lo \<Rightarrow> filter (\<lambda>e. case ar e of Some a \<Rightarrow> lo \<le> a | None \<Rightarrow> False) xs
           | None \<Rightarrow> xs)
        else xs
    | None \<Rightarrow> xs) = filter (\<lambda>e. min_ok lib q (ar e)) xs"
  by (simp add: min_ok_def bound_of_def split: option.splits)

lemma max_stage:
  "(case map_of q ''max_area'' of
      Some s \<Rightarrow>
        if s \<noteq> [] then
          (case py_float lib s of
             Some hi \<Rightarrow> filter (\<lambda>e. case ar e of Some a \<Rightarrow> a \<le> hi | None \<Rightarrow> False) xs
           | None \<Rightarrow> xs)
        else xs
    | None \<Rightarrow> xs) = filter (\<lambda>e. max_ok lib q (ar e)) xs"
  by (simp add: max_ok_def bound_of_def split: option.splits)

lemma points_queryset_eq:
  "points_queryset q d =
     filter (\<lambda>e. active_matches q (pt_is_active e))
       (filter (\<lambda>e. name_matches q (pt_name e)) (order_by_desc pt_created_at (points d)))"
  unfolding points_queryset_def Let_def name_stage active_stage ..

lemma polygons_queryset_stages:
  "polygons_queryset lib q d =
     filter (\<lambda>e. max_ok lib q (pg_area e))
       (filter (\<lambda>e. min_ok lib q (pg_area e))
         (filter (\<lambda>e. active_matches q (pg_is_active e))
           (filter (\<lambda>e. name_matches q (pg_name e)) (order_by_desc pg_created_at (polygons d)))))"
  unfolding polygons_queryset_def Let_def name_stage active_stage min_stage max_stage ..

lemma polygons_queryset_eq:
  "polygons_queryset lib q d =
     filter (\<lambda>e. name_matches q (pg_name e) \<and> active_matches q (pg_is_active e) \<and>
                 area_in_bounds lib q (pg_area e))
       (order_by_desc pg_created_at (polygons d))"
proof -
  have "area_in_bounds lib q a = (min_ok lib q a \<and> max_ok lib q a)" for a
    by (simp add: area_in_bounds_def)
  then show ?thesis
    unfolding polygons_queryset_stages by (simp add: conj_commute conj_left_commute)
qed


lemma mset_order_by_desc: "mset (order_by_desc key xs) = mset xs"
  by (simp add: order_by_desc_def)

lemma sorted_order_by_desc:
  "sorted_wrt (\<lambda>a b. key b \<le> key a) (order_by_desc key xs)"
proof -
  have "sorted (map key (sort_key key xs))" by simp
  then have "sorted_wrt (\<lambda>a b. key a \<le> key b) (sort_key key xs)"
    by (simp add: sorted_map)
  then show ?thesis
    by (simp add: order_by_desc_def sorted_wrt_rev)
qed

lemma get_page_size_bounds:
  "0 < get_page_size lib q" "get_page_size lib q \<le> 100"
  by (auto simp: get_page_size_def page_size_def max_page_size_def split: option.splits)

lemma get_page_size_default:
  "map_of q ''page_size'' = None \<Longrightarrow> get_page_size lib q = 20"
  by (simp add: get_page_size_def page_size_def page_size_query_param_def)

lemma get_page_size_given:
  "map_of q ''page_size'' = Some s \<Longrightarrow> py_int lib s = Some k \<Longrightarrow> 0 < k \<Longrightarrow>
   get_page_size lib q = min (nat k) 100"
  by (simp add: get_page_size_def max_page_size_def page_size_query_param_def)

lemma page_in_range:
  fixes size count :: nat
  assumes "0 < size" and "1 \<le> p" and "p = 1 \<or> (nat p - 1) * size < count"
  shows "p \<le> int (if count = 0 then 1 else (count + size - 1) div size)"
proof (cases "p = 1")
  case True
  have "1 \<le> (count + size - 1) div size" if "count \<noteq> 0"
  proof -
    from that assms(1) have "size \<le> count + size - 1" by simp
    from div_le_mono[OF this, of size] assms(1) show ?thesis by simp
  qed
  with True show ?thesis by auto
next
  case False
  with assms(3) have lt: "(nat p - 1) * size < count" by simp
  then have c: "count \<noteq> 0" by simp
  from lt have "(nat p - 1) * size + size \<le> count + size - 1" by simp
  then have "nat p * size \<le> count + size - 1"
    using assms(2) by (simp add: algebra_simps diff_mult_distrib)
  from div_le_mono[OF this, of size] assms(1) have "nat p \<le> (count + size - 1) div size"
    by simp
  with c assms(2) show ?thesis by simp
qed

lemma paginate_first:
  assumes "map_of q ''page'' = None"
  shows "paginate_queryset lib q qs = PageOf (take (get_page_size lib q) qs)"
proof -
  have pos: "0 < get_page_size lib q" by (rule get_page_size_bounds)
  from page_in_range[OF pos, of 1 "length qs"] assms pos show ?thesis
    by (simp add: paginate_queryset_def Let_def)
qed

lemma paginate_page:
  assumes "map_of q ''page'' = Some s" and "s \<noteq> []" and "s \<noteq> ''last''"
    and "py_int lib s = Some p" and "1 \<le> p"
    and "p = 1 \<or> (nat p - 1) * get_page_size lib q < length qs"
  shows "paginate_queryset lib q qs =
     PageOf (take (get_page_size lib q) (drop ((nat p - 1) * get_page_size lib q) qs))"
proof -
  have pos: "0 < get_page_size lib q" by (rule get_page_size_bounds)
  from page_in_range[OF pos assms(5,6)] assms(1-5) pos show ?thesis
    by (simp add: paginate_queryset_def Let_def)
qed

lemma paginate_not_a_number:
  assumes "map_of q ''page'' = Some s" and "s \<noteq> []" and "s \<noteq> ''last''"
    and "py_int lib s = None"
  shows "paginate_queryset lib q qs = InvalidPage"
proof -
  have "get_page_size lib q \<noteq> 0" using get_page_size_bounds(1)[of lib q] by simp
  then show ?thesis
    using assms by (simp add: paginate_queryset_def Let_def)
qed

lemma points_list_get:
  "spatial_points_list_create lib now GET q item d =
     (case paginate_queryset lib q (points_queryset q d) of
        InvalidPage \<Rightarrow> (HTTP_404, d)
      | PageOf page \<Rightarrow> (Response 200 (Page (length (points_queryset q d)) page), d)
      | NoPage \<Rightarrow> (Response 200 (Entities (points_queryset q d)), d))"
  by (simp add: spatial_points_list_create_def Let_def)

lemma polygons_list_get:
  "spatial_polygons_list_create lib now GET q item d =
     (case paginate_queryset lib q (polygons_queryset lib q d) of
        InvalidPage \<Rightarrow> (HTTP_404, d)
      | PageOf page \<Rightarrow> (Response 200 (Page (length (polygons_queryset lib q d)) page), d)
      | NoPage \<Rightarrow> (Response 200 (Entities (polygons_queryset lib q d)), d))"
  by (simp add: spatial_polygons_list_create_def Let_def)

lemma list_get_unchanged:
  "snd (spatial_points_list_create lib now GET q item d) = d"
  "snd (spatial_polygons_list_create lib now GET q gitem d) = d"
  by (simp_all add: points_list_get polygons_list_get split: page_result.splits)

text \<open>
  C9. A list request is answered 200 with a page of exactly the rows that pass the
  filters sent: a name containing the \<open>name\<close> parameter case-insensitively, an
  \<open>is_active\<close> flag equal to the parameter read as a boolean, and, for polygons, an
  area within the inclusive bounds \<open>min_area\<close> and \<open>max_area\<close>, where a bound that is
  not a number is no bound at all and does not fail the request. The rows come in
  descending order of \<open>created_at\<close>. Without a \<open>page\<close> parameter the answer is the first
  page; with a page number within the pages it is that page; a page parameter that is
  not a number is answered 404. The page size is 20 by default and the \<open>page_size\<close>
  parameter sets it, cut off at 100. A GET leaves the database as it is.
\<close>

theorem list_queries:
  "mset (points_queryset q d) =
     filter_mset (\<lambda>e. name_matches q (pt_name e) \<and> active_matches q (pt_is_active e))
       (mset (points d)) \<and>
   sorted_wrt (\<lambda>a b. pt_created_at b \<le> pt_created_at a) (points_queryset q d) \<and>
   mset (polygons_queryset lib q d) =
     filter_mset (\<lambda>e. name_matches q (pg_name e) \<and> active_matches q (pg_is_active e) \<and>
                     area_in_bounds lib q (pg_area e))
       (mset (polygons d)) \<and>
   sorted_wrt (\<lambda>a b. pg_created_at b \<le> pg_created_at a) (polygons_queryset lib q d) \<and>
   (map_of q ''name'' = Some n \<longrightarrow>
      name_matches q s = (\<exists>pre suf. lower s = pre @ lower n @ suf)) \<and>
   (map_of q ''is_active'' = Some v \<longrightarrow> active_matches q b = (b = (lower v = ''true''))) \<and>
   (map_of q ''min_area'' = Some lo_text \<and> py_float lib lo_text = None \<longrightarrow>
      min_ok lib q area) \<and>
   (map_of q ''max_area'' = Some hi_text \<and> py_float lib hi_text = None \<longrightarrow>
      max_ok lib q area) \<and>
   (bound_of lib q ''min_area'' = Some lo \<longrightarrow> min_ok lib q area = (\<exists>a. area = Some a \<and> lo \<le> a)) \<and>
   (bound_of lib q ''max_area'' = Some hi \<longrightarrow> max_ok lib q area = (\<exists>a. area = Some a \<and> a \<le> hi)) \<and>
   (map_of q ''page_size'' = None \<longrightarrow> get_page_size lib q = 20) \<and>
   (map_of q ''page_size'' = Some size_text \<and> py_int lib size_text = Some k \<and> 0 < k \<longrightarrow>
      get_page_size lib q = min (nat k) 100) \<and>
   get_page_size lib q \<le> 100 \<and>
   snd (spatial_points_list_create lib now GET q item d) = d \<and>
   snd (spatial_polygons_list_create lib now GET q gitem d) = d \<and>
   (map_of q ''page'' = None \<longrightarrow>
      spatial_points_list_create lib now GET q item d =
        (Response 200 (Page (length (points_queryset q d))
           (take (get_page_size lib q) (points_queryset q d))), d) \<and>
      spatial_polygons_list_create lib now GET q gitem d =
        (Response 200 (Page (length (polygons_queryset lib q d))
           (take (get_page_size lib q) (polygons_queryset lib q d))), d)) \<and>
   (map_of q ''page'' = Some page_text \<and> page_text \<noteq> [] \<and> page_text \<noteq> ''last'' \<and>
    py_int lib page_text = Some p \<and> 1 \<le> p \<and>
    (p = 1 \<or> (nat p - 1) * get_page_size lib q < length (points_queryset q d)) \<longrightarrow>
      spatial_points_list_create lib now GET q item d =
        (Response 200 (Page (length (points_queryset q d))
           (take (get_page_size lib q)
              (drop ((nat p - 1) * get_page_size lib q) (points_queryset q d)))), d)) \<and>
   (map_of q ''page'' = Some page_text \<and> page_text \<noteq> [] \<and> page_text \<noteq> ''last'' \<and>
    py_int lib page_text = Some p \<and> 1 \<le> p \<and>
    (p = 1 \<or> (nat p - 1) * get_page_size lib q < length (polygons_queryset lib q d)) \<longrightarrow>
      spatial_polygons_list_create lib now GET q gitem d =
        (Response 200 (Page (length (polygons_queryset lib q d))
           (take (get_page_size lib q)
              (drop ((nat p - 1) * get_page_size lib q) (polygons_queryset lib q d)))), d)) \<and>
   (map_of q ''page'' = Some page_text \<and> page_text \<noteq> [] \<and> page_text \<noteq> ''last'' \<and>
    py_int lib page_text = None \<longrightarrow>
      spatial_points_list_create lib now GET q item d = (HTTP_404, d) \<and>
      spatial_polygons_list_create lib now GET q gitem d = (HTTP_404, d))"
proof (intro conjI impI)
  show "mset (points_queryset q d) =
     filter_mset (\<lambda>e. name_matches q (pt_name e) \<and> active_matches q (pt_is_active e))
       (mset (points d))"
    by (simp add: points_queryset_eq mset_order_by_desc conj_commute)
  show "sorted_wrt (\<lambda>a b. pt_created_at b \<le> pt_created_at a) (points_queryset q d)"
    unfolding points_queryset_eq by (intro sorted_wrt_filter sorted_order_by_desc)
  show "mset (polygons_queryset lib q d) =
     filter_mset (\<lambda>e. name_matches q (pg_name e) \<and> active_matches q (pg_is_active e) \<and>
                     area_in_bounds lib q (pg_area e))
       (mset (polygons d))"
    by (simp add: polygons_queryset_eq mset_order_by_desc)
  show "sorted_wrt (\<lambda>a b. pg_created_at b \<le> pg_created_at a) (polygons_queryset lib q d)"
    unfolding polygons_queryset_eq by (intro sorted_wrt_filter sorted_order_by_desc)
  show "get_page_size lib q \<le> 100"
    by (rule get_page_size_bounds)
  show "snd (spatial_points_list_create lib now GET q item d) = d"
    by (rule list_get_unchanged)
  show "snd (spatial_polygons_list_create lib now GET q gitem d) = d"
    by (rule list_get_unchanged)
next
  assume "map_of q ''name'' = Some n"
  then show "name_matches q s = (\<exists>pre suf. lower s = pre @ lower n @ suf)"
    by (simp add: name_matches_def icontains_iff)
next
  assume "map_of q ''is_active'' = Some v"
  then show "active_matches q b = (b = (lower v = ''true''))"
    by (simp add: active_matches_def)
next
  assume "map_of q ''min_area'' = Some lo_text \<and> py_float lib lo_text = None"
  then show "min_ok lib q area"
    by (simp add: min_ok_def bound_of_def)
next
  assume "map_of q ''max_area'' = Some hi_text \<and> py_float lib hi_text = None"
  then show "max_ok lib q area"
    by (simp add: max_ok_def bound_of_def)
next
  assume "bound_of lib q ''min_area'' = Some lo"
  then show "min_ok lib q area = (\<exists>a. area = Some a \<and> lo \<le> a)"
    by (simp add: min_ok_def split: option.splits)
next
  assume "bound_of lib q ''max_area'' = Some hi"
  then show "max_ok lib q area = (\<exists>a. area = Some a \<and> a \<le> hi)"
    by (simp add: max_ok_def split: option.splits)
next
  assume "map_of q ''page_size'' = None"
  then show "get_page_size lib q = 20"
    by (rule get_page_size_default)
next
  assume "map_of q ''page_size'' = Some size_text \<and> py_int lib size_text = Some k \<and> 0 < k"
  then show "get_page_size lib q = min (nat k) 100"
    using get_page_size_given[where q = q and s = size_text and lib = lib and k = k] by blast
next
  assume h: "map_of q ''page'' = None"
  show "spatial_points_list_create lib now GET q item d =
        (Response 200 (Page (length (points_queryset q d))
           (take (get_page_size lib q) (points_queryset q d))), d)"
    by (simp add: points_list_get paginate_first[OF h])
  show "spatial_polygons_list_create lib now GET q gitem d =
        (Response 200 (Page (length (polygons_queryset lib q d))
           (take (get_page_size lib q) (polygons_queryset lib q d))), d)"
    by (simp add: polygons_list_get paginate_first[OF h])
next
  assume h: "map_of q ''page'' = Some page_text \<and> page_text \<noteq> [] \<and> page_text \<noteq> ''last'' \<and>
    py_int lib page_text = Some p \<and> 1 \<le> p \<and>
    (p = 1 \<or> (nat p - 1) * get_page_size lib q < length (points_queryset q d))"
  then have "paginate_queryset lib q (points_queryset q d) =
      PageOf (take (get_page_size lib q)
        (drop ((nat p - 1) * get_page_size lib q) (points_queryset q d)))"
    by (intro paginate_page[where s = page_text]) simp_all
  then show "spatial_points_list_create lib now GET q item d =
        (Response 200 (Page (length (points_queryset q d))
           (take (get_page_size lib q)
              (drop ((nat p - 1) * get_page_size lib q) (points_queryset q d)))), d)"
    by (simp add: points_list_get)
next
  assume h: "map_of q ''page'' = Some page_text \<and> page_text \<noteq> [] \<and> page_text \<noteq> ''last'' \<and>
    py_int lib page_text = Some p \<and> 1 \<le> p \<and>
    (p = 1 \<or> (nat p - 1) * get_page_size lib q < length (polygons_queryset lib q d))"
  then have "paginate_queryset lib q (polygons_queryset lib q d) =
      PageOf (take (get_page_size lib q)
        (drop ((nat p - 1) * get_page_size lib q) (polygons_queryset lib q d)))"
    by (intro paginate_page[where s = page_text]) simp_all
  then show "spatial_polygons_list_create lib now GET q gitem d =
        (Response 200 (Page (length (polygons_queryset lib q d))
           (take (get_page_size lib q)
              (drop ((nat p - 1) * get_page_size lib q) (polygons_queryset lib q d)))), d)"
    by (simp add: polygons_list_get)
next
  assume h: "map_of q ''page'' = Some page_text \<and> page_text \<noteq> [] \<and> page_text \<noteq> ''last'' \<and>
    py_int lib page_text = None"
  then have n: "paginate_queryset lib q qs = InvalidPage" for qs :: "'a list"
    by (intro paginate_not_a_number[where s = page_text]) simp_all
  show "spatial_points_list_create lib now GET q item d = (HTTP_404, d)"
    by (simp add: points_list_get n)
  show "spatial_polygons_list_create lib now GET q gitem d = (HTTP_404, d)"
    by (simp add: polygons_list_get n)
qed

lemmas list_eval =
  parks_db_def park_def parking_lot_def lake_def stored_polygon_def three_points_db_def
  name_matches_def active_matches_def icontains_def lower_def lower_char_def
  sublist_Cons_right new_point_def point_payload_def nyc_data_def harbour_data_def
  near_nyc_data_def or_default_def reference_platform_def parse_float_def parse_int_def

lemma list_example_params:
  "map_of [(''name'', ''PARK''), (''is_active'', ''TRUE''), (''min_area'', ''big''), (''max_area'', ''6000''), (''page_size'', ''500'')] ''name'' = Some ''PARK''"
  "map_of [(''name'', ''PARK''), (''is_active'', ''TRUE''), (''min_area'', ''big''), (''max_area'', ''6000''), (''page_size'', ''500'')] ''is_active'' = Some ''TRUE''"
  "map_of [(''name'', ''PARK''), (''is_active'', ''TRUE''), (''min_area'', ''big''), (''max_area'', ''6000''), (''page_size'', ''500'')] ''min_area'' = Some ''big''"
  "map_of [(''name'', ''PARK''), (''is_active'', ''TRUE''), (''min_area'', ''big''), (''max_area'', ''6000''), (''page_size'', ''500'')] ''page_size'' = Some ''500''"
  "bound_of reference_platform [(''name'', ''PARK''), (''is_active'', ''TRUE''), (''min_area'', ''big''), (''max_area'', ''6000''), (''page_size'', ''500'')] ''max_area'' = Some 6000"
  "py_float reference_platform ''big'' = None"
  "py_int reference_platform ''500'' = Some 500"
  "map_of [(''name'', ''PARK''), (''is_active'', ''TRUE''), (''min_area'', ''big''), (''max_area'', ''6000''), (''page_size'', ''500'')] ''page'' = None"
  by (simp_all add: bound_of_def reference_platform_def parse_float_def parse_int_def)

lemma list_example_queryset:
  "polygons_queryset reference_platform [(''name'', ''PARK''), (''is_active'', ''TRUE''), (''min_area'', ''big''), (''max_area'', ''6000''), (''page_size'', ''500'')] parks_db = [parking_lot]"
  by (simp add: polygons_queryset_def order_by_desc_def list_eval)

lemma list_example_newest_first:
  "polygons_queryset reference_platform [(''name'', ''park''), (''page'', ''1''), (''page_size'', ''1'')] parks_db = [parking_lot, park]"
  "points_queryset [] three_points_db =
     [(new_point 7 2 near_nyc_data)\<lparr>pt_is_active := False\<rparr>, new_point 6 1 harbour_data,
      new_point 5 0 nyc_data]"
  by (simp_all add: polygons_queryset_def points_queryset_def order_by_desc_def list_eval)

lemma list_example_page:
  "map_of [(''name'', ''park''), (''page'', ''1''), (''page_size'', ''1'')] ''page'' = Some ''1'' \<and> ''1'' \<noteq> [] \<and> ''1'' \<noteq> ''last'' \<and>
   py_int reference_platform ''1'' = Some 1 \<and> (1 :: int) \<le> 1 \<and>
   ((1 :: int) = 1 \<or>
    (nat 1 - 1) * get_page_size reference_platform [(''name'', ''park''), (''page'', ''1''), (''page_size'', ''1'')] <
      length (polygons_queryset reference_platform [(''name'', ''park''), (''page'', ''1''), (''page_size'', ''1'')] parks_db))"
  "get_page_size reference_platform [(''name'', ''park''), (''page'', ''1''), (''page_size'', ''1'')] = 1"
  "map_of [(''page'', ''two'')] ''page'' = Some ''two'' \<and> ''two'' \<noteq> [] \<and> ''two'' \<noteq> ''last'' \<and>
   py_int reference_platform ''two'' = None"
  by (simp_all add: reference_platform_def parse_int_def get_page_size_def
      page_size_query_param_def max_page_size_def)

theorem list_queries_witness:
  "name_matches [(''name'', ''PARK''), (''is_active'', ''TRUE''), (''min_area'', ''big''), (''max_area'', ''6000''), (''page_size'', ''500'')] ''parking lot'' =
     (\<exists>pre suf. lower ''parking lot'' = pre @ lower ''PARK'' @ suf) \<and>
   active_matches [(''name'', ''PARK''), (''is_active'', ''TRUE''), (''min_area'', ''big''), (''max_area'', ''6000''), (''page_size'', ''500'')] True \<and>
   \<not> active_matches [(''name'', ''PARK''), (''is_active'', ''TRUE''), (''min_area'', ''big''), (''max_area'', ''6000''), (''page_size'', ''500'')] False \<and>
   py_float reference_platform ''big'' = None \<and>
   min_ok reference_platform [(''name'', ''PARK''), (''is_active'', ''TRUE''), (''min_area'', ''big''), (''max_area'', ''6000''), (''page_size'', ''500'')] None \<and>
   max_ok reference_platform [(''name'', ''PARK''), (''is_active'', ''TRUE''), (''min_area'', ''big''), (''max_area'', ''6000''), (''page_size'', ''500'')] (Some 6000) \<and>
   \<not> max_ok reference_platform [(''name'', ''PARK''), (''is_active'', ''TRUE''), (''min_area'', ''big''), (''max_area'', ''6000''), (''page_size'', ''500'')] (Some 10000) \<and>
   get_page_size reference_platform [] = 20 \<and>
   py_int reference_platform ''500'' = Some 500 \<and>
   get_page_size reference_platform [(''name'', ''PARK''), (''is_active'', ''TRUE''), (''min_area'', ''big''), (''max_area'', ''6000''), (''page_size'', ''500'')] = 100 \<and>
   map pg_name (polygons parks_db) = [''Park'', ''parking lot'', ''Lake''] \<and>
   spatial_polygons_list_create reference_platform 9 GET [(''name'', ''PARK''), (''is_active'', ''TRUE''), (''min_area'', ''big''), (''max_area'', ''6000''), (''page_size'', ''500'')] Scalar parks_db =
     (Response 200 (Page (length [parking_lot]) (take 100 [parking_lot])), parks_db) \<and>
   spatial_polygons_list_create reference_platform 9 GET [(''name'', ''park''), (''page'', ''1''), (''page_size'', ''1'')] Scalar parks_db =
     (Response 200 (Page (length [parking_lot, park]) (take 1 (drop ((nat 1 - 1) * 1) [parking_lot, park]))), parks_db) \<and>
   spatial_points_list_create reference_platform 9 GET [] Scalar three_points_db =
     (Response 200 (Page (length (points_queryset [] three_points_db))
        (take 20 [(new_point 7 2 near_nyc_data)\<lparr>pt_is_active := False\<rparr>, new_point 6 1 harbour_data,
                  new_point 5 0 nyc_data])), three_points_db) \<and>
   spatial_polygons_list_create reference_platform 9 GET [(''page'', ''two'')] Scalar parks_db = (HTTP_404, parks_db)"
proof -
  let ?q = "[(''name'', ''PARK''), (''is_active'', ''TRUE''), (''min_area'', ''big''), (''max_area'', ''6000''), (''page_size'', ''500'')]"
  let ?q2 = "[(''name'', ''park''), (''page'', ''1''), (''page_size'', ''1'')]"
  let ?q3 = "[(''page'', ''two'')]"
  note t = list_queries[where lib = reference_platform and d = parks_db and q = ?q
      and now = 9 and gitem = Scalar]
  note t2 = list_queries[where lib = reference_platform and d = parks_db and q = ?q2
      and now = 9 and gitem = Scalar]
  note t3 = list_queries[where lib = reference_platform and d = parks_db and q = ?q3
      and now = 9 and gitem = Scalar]
  note t4 = list_queries[where lib = reference_platform and d = three_points_db and q = "[]"
      and now = 9 and item = Scalar]
  note p = list_example_params
  note h4 = conjI[OF p(3) p(6)]
  have 1: "name_matches ?q ''parking lot'' =
      (\<exists>pre suf. lower ''parking lot'' = pre @ lower ''PARK'' @ suf)"
    by (rule mp[OF t[THEN conjunct2, THEN conjunct2, THEN conjunct2, THEN conjunct2, THEN conjunct1] p(1)])
  have 2: "active_matches ?q True = (True = (lower ''TRUE'' = ''true''))"
    by (rule mp[OF t[THEN conjunct2, THEN conjunct2, THEN conjunct2, THEN conjunct2, THEN conjunct2, THEN conjunct1] p(2)])
  have 3: "active_matches ?q False = (False = (lower ''TRUE'' = ''true''))"
    by (rule mp[OF t[THEN conjunct2, THEN conjunct2, THEN conjunct2, THEN conjunct2, THEN conjunct2, THEN conjunct1] p(2)])
  have 4: "min_ok reference_platform ?q None"
    by (rule mp[OF t[THEN conjunct2, THEN conjunct2, THEN conjunct2, THEN conjunct2, THEN conjunct2, THEN conjunct2, THEN conjunct1] h4])
  have 5: "max_ok reference_platform ?q (Some 6000) = (\<exists>a. Some 6000 = Some a \<and> a \<le> (6000 :: real))"
    by (rule mp[OF t[THEN conjunct2, THEN conjunct2, THEN conjunct2, THEN conjunct2, THEN conjunct2, THEN conjunct2, THEN conjunct2, THEN conjunct2, THEN conjunct2, THEN conjunct1] p(5)])
  have 6: "max_ok reference_platform ?q (Some 10000) = (\<exists>a. Some 10000 = Some a \<and> a \<le> (6000 :: real))"
    by (rule mp[OF t[THEN conjunct2, THEN conjunct2, THEN conjunct2, THEN conjunct2, THEN conjunct2, THEN conjunct2, THEN conjunct2, THEN conjunct2, THEN conjunct2, THEN conjunct1] p(5)])
  have e: "map_of ([] :: query) ''page_size'' = None" "map_of ([] :: query) ''page'' = None"
    by simp_all
  have 7: "get_page_size reference_platform [] = 20"
    by (rule mp[OF t4[THEN conjunct2, THEN conjunct2, THEN conjunct2, THEN conjunct2, THEN conjunct2, THEN conjunct2, THEN conjunct2, THEN conjunct2, THEN conjunct2, THEN conjunct2, THEN conjunct1] e(1)])
  have k: "(0 :: int) < 500" by simp
  note h8 = conjI[OF p(7) k]
  note h8 = conjI[OF p(4) h8]
  have 8: "get_page_size reference_platform ?q = min (nat 500) 100"
    by (rule mp[OF t[THEN conjunct2, THEN conjunct2, THEN conjunct2, THEN conjunct2, THEN conjunct2, THEN conjunct2, THEN conjunct2, THEN conjunct2, THEN conjunct2, THEN conjunct2, THEN conjunct2, THEN conjunct1] h8])
  have l: "lower ''TRUE'' = ''true''"
    by (simp add: lower_def lower_char_def)
  have a2: "active_matches ?q True" using 2 l by simp
  have a3: "\<not> active_matches ?q False" using 3 l by simp
  have a5: "max_ok reference_platform ?q (Some 6000)" using 5 by simp
  have a6: "\<not> max_ok reference_platform ?q (Some 10000)" using 6 by simp
  have a8: "get_page_size reference_platform ?q = 100" using 8 by simp
  have n: "map pg_name (polygons parks_db) = [''Park'', ''parking lot'', ''Lake'']"
    by (simp add: parks_db_def park_def parking_lot_def lake_def stored_polygon_def)
  have 9: "spatial_polygons_list_create reference_platform 9 GET ?q Scalar parks_db =
     (Response 200 (Page (length [parking_lot]) (take 100 [parking_lot])), parks_db)"
    using mp[OF t[THEN conjunct2, THEN conjunct2, THEN conjunct2, THEN conjunct2, THEN conjunct2, THEN conjunct2, THEN conjunct2, THEN conjunct2, THEN conjunct2, THEN conjunct2, THEN conjunct2, THEN conjunct2, THEN conjunct2, THEN conjunct2, THEN conjunct2, THEN conjunct1] p(8), THEN conjunct2]
    unfolding list_example_queryset a8 .
  have 10: "spatial_polygons_list_create reference_platform 9 GET ?q2 Scalar parks_db =
     (Response 200 (Page (length [parking_lot, park])
        (take 1 (drop ((nat 1 - 1) * 1) [parking_lot, park]))), parks_db)"
    using mp[OF t2[where page_text = "''1''" and p = 1, THEN conjunct2, THEN conjunct2, THEN conjunct2, THEN conjunct2, THEN conjunct2, THEN conjunct2, THEN conjunct2, THEN conjunct2, THEN conjunct2, THEN conjunct2, THEN conjunct2, THEN conjunct2, THEN conjunct2, THEN conjunct2, THEN conjunct2, THEN conjunct2, THEN conjunct2, THEN conjunct1] list_example_page(1)]
    unfolding list_example_newest_first list_example_page(2) .
  have 11: "spatial_points_list_create reference_platform 9 GET [] Scalar three_points_db =
     (Response 200 (Page (length (points_queryset [] three_points_db))
        (take 20 [(new_point 7 2 near_nyc_data)\<lparr>pt_is_active := False\<rparr>, new_point 6 1 harbour_data,
                  new_point 5 0 nyc_data])), three_points_db)"
    using mp[OF t4[THEN conjunct2, THEN conjunct2, THEN conjunct2, THEN conjunct2, THEN conjunct2, THEN conjunct2, THEN conjunct2, THEN conjunct2, THEN conjunct2, THEN conjunct2, THEN conjunct2, THEN conjunct2, THEN conjunct2, THEN conjunct2, THEN conjunct2, THEN conjunct1] e(2), THEN conjunct1]
    unfolding 7 list_example_newest_first(2)[symmetric]
    unfolding list_example_newest_first(2) .
  have 12: "spatial_polygons_list_create reference_platform 9 GET ?q3 Scalar parks_db =
      (HTTP_404, parks_db)"
    using mp[OF t3[where page_text = "''two''", THEN conjunct2, THEN conjunct2, THEN conjunct2, THEN conjunct2, THEN conjunct2, THEN conjunct2, THEN conjunct2, THEN conjunct2, THEN conjunct2, THEN conjunct2, THEN conjunct2, THEN conjunct2, THEN conjunct2, THEN conjunct2, THEN conjunct2, THEN conjunct2, THEN conjunct2, THEN conjunct2] list_example_page(3)]
    by (rule conjunct2)
  show ?thesis
    by (intro conjI 1 a2 a3 4 a5 a6 7 a8 n 9 10 11 12 p(6) p(7))
qed

end
